theory Spec2Isabelle
  imports Main "HOL-Library.Sublist"
begin

section \<open>Exceptions and strings\<close>

text \<open>
  Every function of the source that can raise returns a sum in the model: \<open>Inl e\<close> is the
  exception \<open>e\<close> leaving the function, \<open>Inr v\<close> is a normal return.  A Python \<open>str\<close> is a
  \<open>string\<close>.  The operating-system errors carry the path they complain about.
\<close>

datatype exc =
    FileNotFoundError string
  | IsADirectoryError string
  | NotADirectoryError string
  | FileExistsError string
  | PermissionError string
  | UnicodeDecodeError
  | TypeError string
  | ValueError string
  | NotImplementedError string
  | IndexError string
  | KeyError string
  | ReError string
  | RuntimeError string
  | ImportError string
  | OtherError string

definition os_msg :: "string \<Rightarrow> string \<Rightarrow> string \<Rightarrow> string" where
  "os_msg errno what p = ''[Errno '' @ errno @ ''] '' @ what @ '': '' @ [CHR 0x27] @ p @ [CHR 0x27]"

text \<open>\<open>str(e)\<close>, as the f-strings of the tools print it (paths without quotes or escapes).\<close>

fun str_exc :: "exc \<Rightarrow> string" where
  "str_exc (FileNotFoundError p) = os_msg ''2'' ''No such file or directory'' p"
| "str_exc (IsADirectoryError p) = os_msg ''21'' ''Is a directory'' p"
| "str_exc (NotADirectoryError p) = os_msg ''20'' ''Not a directory'' p"
| "str_exc (FileExistsError p) = os_msg ''17'' ''File exists'' p"
| "str_exc (PermissionError p) = os_msg ''13'' ''Permission denied'' p"
| "str_exc UnicodeDecodeError = ''utf-8 codec cannot decode the file''"
| "str_exc (TypeError m) = m"
| "str_exc (ValueError m) = m"
| "str_exc (NotImplementedError m) = m"
| "str_exc (IndexError m) = m"
| "str_exc (KeyError m) = m"
| "str_exc (ReError m) = m"
| "str_exc (RuntimeError m) = m"
| "str_exc (ImportError m) = m"
| "str_exc (OtherError m) = m"

abbreviation LF :: char where "LF \<equiv> CHR 0x0A"
abbreviation CR :: char where "CR \<equiv> CHR 0x0D"

text \<open>\<open>t in s\<close> on strings: \<open>t\<close> occurs in \<open>s\<close> as a contiguous substring.\<close>

fun contains :: "string \<Rightarrow> string \<Rightarrow> bool" where
  "contains t [] = (t = [])"
| "contains t (c # s) = (prefix t (c # s) \<or> contains t s)"

text \<open>
  \<open>s.replace(t, r)\<close>: the occurrences of \<open>t\<close> are found from the left and do not overlap;
  an empty \<open>t\<close> matches before every character and at the end.
\<close>

fun replace_scan :: "string \<Rightarrow> string \<Rightarrow> string \<Rightarrow> string" where
  "replace_scan t r [] = []"
| "replace_scan t r (c # s) =
     (if prefix t (c # s) then r @ replace_scan t r (drop (length t - 1) s)
      else c # replace_scan t r s)"

definition py_replace :: "string \<Rightarrow> string \<Rightarrow> string \<Rightarrow> string" where
  "py_replace s t r =
     (if t = [] then r @ concat (map (\<lambda>c. c # r) s) else replace_scan t r s)"

text \<open>\<open>sep.join(xs)\<close>.\<close>

fun py_join :: "string \<Rightarrow> string list \<Rightarrow> string" where
  "py_join sep [] = []"
| "py_join sep [x] = x"
| "py_join sep (x # y # ys) = x @ sep @ py_join sep (y # ys)"

text \<open>\<open>xs[i:j]\<close> for integers \<open>i\<close>, \<open>j\<close>: a negative bound counts from the end, and
  both bounds are clamped to the list.\<close>

definition slice_bound :: "int \<Rightarrow> int \<Rightarrow> int" where
  "slice_bound n i = (if i < 0 then max 0 (n + i) else min i n)"

definition py_slice :: "'a list \<Rightarrow> int \<Rightarrow> int \<Rightarrow> 'a list" where
  "py_slice xs i j =
     (let n = int (length xs); a = slice_bound n i; b = slice_bound n j
      in take (nat (b - a)) (drop (nat a) xs))"

text \<open>\<open>s.strip()\<close>, on the ASCII white space.\<close>

definition is_space :: "char \<Rightarrow> bool" where
  "is_space c = (c = CHR '' '' \<or> c \<in> set [CHR 0x09, CHR 0x0A, CHR 0x0B, CHR 0x0C, CHR 0x0D,
                                          CHR 0x1C, CHR 0x1D, CHR 0x1E, CHR 0x1F])"

definition py_strip :: "string \<Rightarrow> string" where
  "py_strip s = rev (dropWhile is_space (rev (dropWhile is_space s)))"

text \<open>Decimal text of a natural number, for the line numbers \<open>{i}\<close> of grep.\<close>

fun digits_fuel :: "nat \<Rightarrow> nat \<Rightarrow> string" where
  "digits_fuel 0 n = []"
| "digits_fuel (Suc k) n =
     (if n < 10 then [char_of (48 + n)]
      else digits_fuel k (n div 10) @ [char_of (48 + n mod 10)])"

definition str_nat :: "nat \<Rightarrow> string" where
  "str_nat n = digits_fuel (Suc n) n"

section \<open>The file system the tools act on\<close>

text \<open>
  A path resolves to nothing, to a directory or to a regular file.  A file has its
  permission bits for the running user and its bytes, which either decode as UTF-8 text or
  do not.  Paths are canonical strings (one spelling per path); \<open>.\<close> and \<open>/\<close> always exist.
\<close>

datatype fdata = Text string | Undecodable

datatype node = Dir | File (readable: bool) (writable: bool) (data: fdata)

type_synonym fs = "string \<Rightarrow> node option"

definition node_at :: "fs \<Rightarrow> string \<Rightarrow> node option" where
  "node_at fs p = (if p = ''.'' \<or> p = ''/'' then Some Dir else fs p)"

text \<open>\<open>Path.exists()\<close> and \<open>Path.is_file()\<close>.\<close>

definition exists :: "fs \<Rightarrow> string \<Rightarrow> bool" where
  "exists fs p = (node_at fs p \<noteq> None)"

definition is_file :: "fs \<Rightarrow> string \<Rightarrow> bool" where
  "is_file fs p = (case node_at fs p of Some (File _ _ _) \<Rightarrow> True | _ \<Rightarrow> False)"

text \<open>Text mode reads with universal newlines: \<open>\r\n\<close> and \<open>\r\<close> arrive as \<open>\n\<close>.\<close>

fun universal_newlines :: "string \<Rightarrow> string" where
  "universal_newlines [] = []"
| "universal_newlines [c] = (if c = CR then [LF] else [c])"
| "universal_newlines (c # d # s) =
     (if c = CR \<and> d = LF then LF # universal_newlines s
      else if c = CR then LF # universal_newlines (d # s)
      else c # universal_newlines (d # s))"

text \<open>\<open>open(path, 'r', encoding='utf-8')\<close> followed by reading the whole file.\<close>

definition read_text :: "fs \<Rightarrow> string \<Rightarrow> exc + string" where
  "read_text fs p =
     (case node_at fs p of
        None \<Rightarrow> Inl (FileNotFoundError p)
      | Some Dir \<Rightarrow> Inl (IsADirectoryError p)
      | Some (File r w d) \<Rightarrow>
          if \<not> r then Inl (PermissionError p)
          else (case d of Undecodable \<Rightarrow> Inl UnicodeDecodeError
                        | Text s \<Rightarrow> Inr (universal_newlines s)))"

text \<open>\<open>f.readlines()\<close>: the lines of the text, each with its line end.\<close>

fun readlines :: "string \<Rightarrow> string list" where
  "readlines [] = []"
| "readlines (c # s) =
     (if c = LF then [c] # readlines s
      else (case readlines s of [] \<Rightarrow> [[c]] | l # ls \<Rightarrow> (c # l) # ls))"

text \<open>\<open>Path.parent\<close> and the proper ancestors of a path, outermost first.\<close>

definition parent :: "string \<Rightarrow> string" where
  "parent p =
     (let d = rev (drop 1 (dropWhile (\<lambda>c. c \<noteq> CHR ''/'') (rev p)))
      in if CHR ''/'' \<notin> set p then ''.'' else if d = [] then ''/'' else d)"

definition ancestors :: "string \<Rightarrow> string list" where
  "ancestors p = map (\<lambda>i. take i p) (filter (\<lambda>i. p ! i = CHR ''/'') [1..<length p])"

text \<open>\<open>Path.mkdir(parents=True, exist_ok=True)\<close>: every missing directory on the way is
  created; a regular file on the way is an error.\<close>

fun mkdirs :: "fs \<Rightarrow> string list \<Rightarrow> exc + fs" where
  "mkdirs fs [] = Inr fs"
| "mkdirs fs (d # ds) =
     (case node_at fs d of
        Some (File _ _ _) \<Rightarrow> Inl (if ds = [] then FileExistsError d else NotADirectoryError d)
      | Some Dir \<Rightarrow> mkdirs fs ds
      | None \<Rightarrow> mkdirs (fs(d \<mapsto> Dir)) ds)"

definition mkdir_parents :: "fs \<Rightarrow> string \<Rightarrow> exc + fs" where
  "mkdir_parents fs d = mkdirs fs (ancestors d @ [d])"

text \<open>\<open>open(path, 'w', encoding='utf-8')\<close> followed by \<open>f.write(content)\<close>: the file is
  created or truncated, then holds the content.\<close>

definition write_text :: "fs \<Rightarrow> string \<Rightarrow> string \<Rightarrow> exc + fs" where
  "write_text fs p content =
     (case node_at fs p of
        Some Dir \<Rightarrow> Inl (IsADirectoryError p)
      | Some (File r w d) \<Rightarrow>
          if w then Inr (fs(p \<mapsto> File r w (Text content))) else Inl (PermissionError p)
      | None \<Rightarrow>
          (case node_at fs (parent p) of
             Some Dir \<Rightarrow> Inr (fs(p \<mapsto> File True True (Text content)))
           | Some (File _ _ _) \<Rightarrow> Inl (NotADirectoryError p)
           | None \<Rightarrow> Inl (FileNotFoundError p)))"

section \<open>The built-in tools (core/tools/builtin.py)\<close>

definition read_file :: "fs \<Rightarrow> string \<Rightarrow> int option \<Rightarrow> int option \<Rightarrow> exc + string" where
  "read_file fs file_path start_line end_line =
     (if \<not> exists fs file_path then Inr (''Error: File not found: '' @ file_path)
      else
        (case read_text fs file_path of
           Inl e \<Rightarrow> Inr (''Error reading file: '' @ str_exc e)
         | Inr text \<Rightarrow>
             (let lines = readlines text in
              if start_line \<noteq> None \<or> end_line \<noteq> None then
                (let start = (case start_line of
                                Some n \<Rightarrow> if n \<noteq> 0 then n - 1 else 0
                              | None \<Rightarrow> 0);
                     end' = (case end_line of
                               Some n \<Rightarrow> if n \<noteq> 0 then n else int (length lines)
                             | None \<Rightarrow> int (length lines))
                 in Inr (concat (py_slice lines start end')))
              else Inr (concat lines))))"

definition write_file :: "fs \<Rightarrow> string \<Rightarrow> string \<Rightarrow> exc + (string \<times> fs)" where
  "write_file fs file_path content =
     (case mkdir_parents fs (parent file_path) of
        Inl e \<Rightarrow> Inr (''Error writing file: '' @ str_exc e, fs)
      | Inr fs1 \<Rightarrow>
          (case write_text fs1 file_path content of
             Inl e \<Rightarrow> Inr (''Error writing file: '' @ str_exc e, fs1)
           | Inr fs2 \<Rightarrow> Inr (''Successfully wrote to '' @ file_path, fs2)))"

definition edit_file :: "fs \<Rightarrow> string \<Rightarrow> string \<Rightarrow> string \<Rightarrow> exc + (string \<times> fs)" where
  "edit_file fs file_path target_content replacement_content =
     (if \<not> exists fs file_path then Inr (''Error: File not found: '' @ file_path, fs)
      else
        (case read_text fs file_path of
           Inl e \<Rightarrow> Inr (''Error editing file: '' @ str_exc e, fs)
         | Inr content \<Rightarrow>
             if \<not> contains target_content content
             then Inr (''Error: Target content not found in '' @ file_path, fs)
             else
               (let new_content = py_replace content target_content replacement_content in
                case write_text fs file_path new_content of
                  Inl e \<Rightarrow> Inr (''Error editing file: '' @ str_exc e, fs)
                | Inr fs' \<Rightarrow> Inr (''Successfully edited '' @ file_path, fs'))))"

text \<open>
  \<open>Path.rglob\<close> belongs to pathlib.  What it checks before walking is written out: an empty
  pattern is a \<open>ValueError\<close>, a pattern that starts at the root a \<open>NotImplementedError\<close>.
  The walk itself and its pattern matching are the parameter \<open>walk\<close>: \<open>walk fs root pattern\<close>
  lists the matching paths relative to \<open>root\<close>, in the order \<open>rglob\<close> yields them.
\<close>

type_synonym walker = "fs \<Rightarrow> string \<Rightarrow> string \<Rightarrow> string list"

definition rglob :: "walker \<Rightarrow> fs \<Rightarrow> string \<Rightarrow> string \<Rightarrow> exc + string list" where
  "rglob walk fs root pattern =
     (if pattern = [] then Inl (ValueError (''Unacceptable pattern: '' @ [CHR 0x27, CHR 0x27]))
      else if hd pattern = CHR ''/''
      then Inl (NotImplementedError ''Non-relative patterns are unsupported'')
      else Inr (walk fs root pattern))"

text \<open>\<open>root / rel\<close> on canonical paths.\<close>

definition path_join :: "string \<Rightarrow> string \<Rightarrow> string" where
  "path_join a b =
     (if b = [] \<or> b = ''.'' then a
      else if a = ''.'' then b
      else if a = ''/'' then ''/'' @ b
      else a @ ''/'' @ b)"

definition glob_files :: "walker \<Rightarrow> fs \<Rightarrow> string \<Rightarrow> string \<Rightarrow> exc + string list" where
  "glob_files walk fs pattern root_dir =
     (case rglob walk fs root_dir pattern of
        Inl e \<Rightarrow> Inl e
      | Inr rels \<Rightarrow> Inr (filter (\<lambda>rel. is_file fs (path_join root_dir rel)) rels))"

text \<open>
  \<open>re.compile(query, re.IGNORECASE)\<close> belongs to the \<open>re\<close> module: the parameter
  \<open>re_compile\<close> gives either the error it raises or the \<open>search\<close> predicate on lines.
\<close>

type_synonym regex_lib = "string \<Rightarrow> exc + (string \<Rightarrow> bool)"

text \<open>The result lines of one file: \<open>enumerate(f, 1)\<close>, \<open>regex.search(line)\<close>, the f-string.\<close>

definition grep_lines :: "(string \<Rightarrow> bool) \<Rightarrow> string \<Rightarrow> string list \<Rightarrow> string list" where
  "grep_lines search rel lines =
     map (\<lambda>(i, line). rel @ '':'' @ str_nat i @ '': '' @ py_strip line)
         (filter (\<lambda>(i, line). search line) (zip [1..<Suc (length lines)] lines))"

text \<open>The loop over the matched paths; only \<open>UnicodeDecodeError\<close> and \<open>PermissionError\<close>
  are caught, and skip the file.\<close>

fun grep_paths :: "(string \<Rightarrow> bool) \<Rightarrow> fs \<Rightarrow> string \<Rightarrow> string list \<Rightarrow> exc + string list" where
  "grep_paths search fs root [] = Inr []"
| "grep_paths search fs root (rel # rels) =
     (if is_file fs (path_join root rel) then
        (case read_text fs (path_join root rel) of
           Inl UnicodeDecodeError \<Rightarrow> grep_paths search fs root rels
         | Inl (PermissionError p) \<Rightarrow> grep_paths search fs root rels
         | Inl e \<Rightarrow> Inl e
         | Inr text \<Rightarrow>
             (case grep_paths search fs root rels of
                Inl e \<Rightarrow> Inl e
              | Inr results \<Rightarrow> Inr (grep_lines search rel (readlines text) @ results)))
      else grep_paths search fs root rels)"

definition grep_files ::
  "regex_lib \<Rightarrow> walker \<Rightarrow> fs \<Rightarrow> string \<Rightarrow> string \<Rightarrow> string \<Rightarrow> exc + string" where
  "grep_files re_compile walk fs query pattern root_dir =
     (case re_compile query of
        Inl e \<Rightarrow> Inl e
      | Inr search \<Rightarrow>
          (case rglob walk fs root_dir pattern of
             Inl e \<Rightarrow> Inl e
           | Inr rels \<Rightarrow>
               (case grep_paths search fs root_dir rels of
                  Inl e \<Rightarrow> Inl e
                | Inr results \<Rightarrow>
                    Inr (if results \<noteq> [] then py_join [LF] results
                         else ''No matches found.''))))"

text \<open>
  \<open>execute_bash\<close> calls two collaborators that are not in builtin.py.  The security gate
  \<open>security.hooks.validate_command\<close> is the parameter \<open>validate_command\<close>; it is called
  outside the \<open>try\<close>, so an exception of the gate leaves \<open>execute_bash\<close>.  The shell run
  \<open>subprocess.run(command, shell=True, cwd=cwd, ..., timeout=300)\<close> is the parameter
  \<open>run_shell\<close>: it ends with the captured output, with the timeout or with another
  exception, and leaves the file system the command made.  Both engines pass
  \<open>args.get("command")\<close>, which is \<open>None\<close> when the key is missing.
\<close>

datatype proc = CompletedProcess string string | TimeoutExpired | RunFailed exc

type_synonym gate = "string option \<Rightarrow> string \<Rightarrow> exc + (bool \<times> string)"
type_synonym shell = "fs \<Rightarrow> string option \<Rightarrow> string option \<Rightarrow> proc \<times> fs"

definition truthy :: "string option \<Rightarrow> bool" where
  "truthy v = (case v of None \<Rightarrow> False | Some s \<Rightarrow> s \<noteq> [])"

definition execute_bash ::
  "gate \<Rightarrow> shell \<Rightarrow> string \<Rightarrow> fs \<Rightarrow> string option \<Rightarrow> string option \<Rightarrow> exc + (string \<times> fs)" where
  "execute_bash validate_command run_shell process_cwd fs command cwd =
     (let project_dir = (case cwd of
                          Some d \<Rightarrow> if d \<noteq> [] then d else process_cwd
                        | None \<Rightarrow> process_cwd) in
      case validate_command command project_dir of
        Inl e \<Rightarrow> Inl e
      | Inr (is_allowed, reason) \<Rightarrow>
          if \<not> is_allowed
          then Inr (''Error: Command blocked by security policy: '' @ reason, fs)
          else
            (case run_shell fs command cwd of
               (CompletedProcess stdout stderr, fs') \<Rightarrow>
                 (let output = (if stderr \<noteq> [] then stdout @ [LF] @ ''Stderr:'' @ [LF] @ stderr
                                else stdout)
                  in Inr (if output \<noteq> [] then output else ''[Command executed with no output]'',
                          fs'))
             | (TimeoutExpired, fs') \<Rightarrow> Inr (''Error: Command timed out after 300 seconds.'', fs')
             | (RunFailed e, fs') \<Rightarrow> Inr (''Error executing command: '' @ str_exc e, fs')))"

section \<open>Engine configuration (core/engine.py)\<close>

text \<open>
  \<open>AgentOptions\<close>.  The fields \<open>mcp_servers\<close>, \<open>hooks\<close>, \<open>settings\<close> and \<open>verbose\<close> are
  left out: the engines below are followed with the debug log off, and the other three are
  only handed to the managed runtime.  \<open>env\<close> is the optional dictionary of overrides.
\<close>

type_synonym environ = "string \<Rightarrow> string option"

record agent_options =
  model :: string
  system_prompt :: string
  provider :: "string option"
  spec_dir :: "string option"
  allowed_tools :: "string list"
  max_turns :: int
  cwd :: "string option"
  env :: "environ option"

text \<open>\<open>a or b\<close> on optional strings, and \<open>(options.env or {})\<close>.\<close>

definition py_or :: "string option \<Rightarrow> string option \<Rightarrow> string option" where
  "py_or a b = (if truthy a then a else b)"

definition options_env :: "agent_options \<Rightarrow> environ" where
  "options_env opts = (case env opts of Some e \<Rightarrow> e | None \<Rightarrow> (\<lambda>_. None))"

definition lower_char :: "char \<Rightarrow> char" where
  "lower_char c =
     (if 65 \<le> (of_char c :: nat) \<and> (of_char c :: nat) \<le> 90 then char_of ((of_char c :: nat) + 32)
      else c)"

definition lower :: "string \<Rightarrow> string" where
  "lower s = map lower_char s"

section \<open>Tool schemas\<close>

text \<open>
  One registered function: its name, its description, the \<open>properties\<close> of its
  \<open>parameters\<close> object (parameter name and JSON type) and the \<open>required\<close> list.
\<close>

record tool_schema =
  fn_name :: string
  fn_description :: string
  fn_properties :: "(string \<times> string) list"
  fn_required :: "string list"

text \<open>\<open>{"function_declarations": [...]}\<close> and \<open>{"type": "function", "function": ...}\<close>.\<close>

datatype gemini_tool = FunctionDeclarations "tool_schema list"

datatype openai_tool = FunctionTool tool_schema

definition make_gemini_tool ::
  "string \<Rightarrow> string \<Rightarrow> (string \<times> string) list \<Rightarrow> string list \<Rightarrow> gemini_tool" where
  "make_gemini_tool nm descr props req =
     FunctionDeclarations
       [\<lparr>fn_name = nm, fn_description = descr, fn_properties = props, fn_required = req\<rparr>]"

text \<open>The \<open>if\<close>/\<open>elif\<close> chain in the body of the loop of \<open>get_agent_allowed_tools\<close> (the
  same chain is in \<open>_configure_tools\<close>): what one tool name appends.\<close>

definition gemini_tool_of :: "string \<Rightarrow> gemini_tool list" where
  "gemini_tool_of tool_name =
     (if tool_name = ''Read'' then
        [make_gemini_tool ''Read'' ''Read a file or a specific range of lines.''
           [(''file_path'', ''string''), (''start_line'', ''integer''), (''end_line'', ''integer'')]
           [''file_path'']]
      else if tool_name = ''Write'' then
        [make_gemini_tool ''Write'' ''Create or overwrite a file.''
           [(''file_path'', ''string''), (''content'', ''string'')]
           [''file_path'', ''content'']]
      else if tool_name = ''Edit'' then
        [make_gemini_tool ''Edit''
           ''Edit a file by replacing target_content with replacement_content.''
           [(''file_path'', ''string''), (''target_content'', ''string''),
            (''replacement_content'', ''string'')]
           [''file_path'', ''target_content'', ''replacement_content'']]
      else if tool_name = ''Glob'' then
        [make_gemini_tool ''Glob'' ''List files matching a pattern.''
           [(''pattern'', ''string'')]
           [''pattern'']]
      else if tool_name = ''Grep'' then
        [make_gemini_tool ''Grep'' ''Search for a string in files.''
           [(''query'', ''string''), (''pattern'', ''string'')]
           [''query'']]
      else if tool_name = ''Bash'' then
        [make_gemini_tool ''Bash'' ''Execute a bash command.''
           [(''command'', ''string'')]
           [''command'']]
      else [])"

fun get_agent_allowed_tools :: "string list \<Rightarrow> gemini_tool list" where
  "get_agent_allowed_tools [] = []"
| "get_agent_allowed_tools (tool_name # rest) =
     gemini_tool_of tool_name @ get_agent_allowed_tools rest"

text \<open>The chain in the loop of \<open>_get_openai_tools\<close>.\<close>

definition openai_tool_of :: "string \<Rightarrow> openai_tool list" where
  "openai_tool_of nm =
     (if nm = ''Read'' then
        [FunctionTool \<lparr>fn_name = ''Read'', fn_description = ''Read file content'',
           fn_properties = [(''file_path'', ''string''), (''start_line'', ''integer''),
                            (''end_line'', ''integer'')],
           fn_required = [''file_path'']\<rparr>]
      else if nm = ''Write'' then
        [FunctionTool \<lparr>fn_name = ''Write'', fn_description = ''Create/Overwrite file'',
           fn_properties = [(''file_path'', ''string''), (''content'', ''string'')],
           fn_required = [''file_path'', ''content'']\<rparr>]
      else if nm = ''Edit'' then
        [FunctionTool \<lparr>fn_name = ''Edit'', fn_description = ''Edit file content'',
           fn_properties = [(''file_path'', ''string''), (''target_content'', ''string''),
                            (''replacement_content'', ''string'')],
           fn_required = [''file_path'', ''target_content'', ''replacement_content'']\<rparr>]
      else if nm = ''Glob'' then
        [FunctionTool \<lparr>fn_name = ''Glob'', fn_description = ''List files'',
           fn_properties = [(''pattern'', ''string'')],
           fn_required = [''pattern'']\<rparr>]
      else if nm = ''Grep'' then
        [FunctionTool \<lparr>fn_name = ''Grep'', fn_description = ''Search in files'',
           fn_properties = [(''query'', ''string''), (''pattern'', ''string'')],
           fn_required = [''query'']\<rparr>]
      else if nm = ''Bash'' then
        [FunctionTool \<lparr>fn_name = ''Bash'', fn_description = ''Run bash command'',
           fn_properties = [(''command'', ''string'')],
           fn_required = [''command'']\<rparr>]
      else [])"

fun get_openai_tools :: "string list \<Rightarrow> openai_tool list" where
  "get_openai_tools [] = []"
| "get_openai_tools (nm # rest) = openai_tool_of nm @ get_openai_tools rest"

text \<open>What a backend is given: the schemas inside the wrappers, and for one schema its
  parameter names, each with whether it is required.\<close>

fun gemini_schemas :: "gemini_tool list \<Rightarrow> tool_schema list" where
  "gemini_schemas [] = []"
| "gemini_schemas (FunctionDeclarations ds # rest) = ds @ gemini_schemas rest"

fun openai_schemas :: "openai_tool list \<Rightarrow> tool_schema list" where
  "openai_schemas [] = []"
| "openai_schemas (FunctionTool d # rest) = d # openai_schemas rest"

definition registered_params :: "tool_schema \<Rightarrow> (string \<times> bool) list" where
  "registered_params sch = map (\<lambda>(k, ty). (k, k \<in> set (fn_required sch))) (fn_properties sch)"

text \<open>
  The table of section 6 of the specification, in its words: the parameter names of each
  of the six tools, \<open>True\<close> for a required parameter and \<open>False\<close> for one written with
  a question mark.  It is compared with what the code registers.
\<close>

definition spec_tool_params :: "string \<Rightarrow> (string \<times> bool) list option" where
  "spec_tool_params nm =
     (if nm = ''Read'' then Some [(''file_path'', True), (''start_line'', False), (''end_line'', False)]
      else if nm = ''Write'' then Some [(''file_path'', True), (''content'', True)]
      else if nm = ''Edit'' then
        Some [(''file_path'', True), (''target_content'', True), (''replacement_content'', True)]
      else if nm = ''Glob'' then Some [(''pattern'', True), (''root_dir'', False)]
      else if nm = ''Grep'' then Some [(''query'', True), (''pattern'', False), (''root_dir'', False)]
      else if nm = ''Bash'' then Some [(''command'', True)]
      else None)"

definition supported_tools :: "string list" where
  "supported_tools = [''Read'', ''Write'', ''Edit'', ''Glob'', ''Grep'', ''Bash'']"

text \<open>The parameters the code registers for a schema, by its name: those of section 6 for
  Read, Write, Edit and Bash; Glob and Grep without \<open>root_dir\<close>.\<close>

definition params_as_registered :: "tool_schema \<Rightarrow> bool" where
  "params_as_registered sch =
     ((fn_name sch \<in> {''Read'', ''Write'', ''Edit'', ''Bash''} \<longrightarrow>
         Some (registered_params sch) = spec_tool_params (fn_name sch)) \<and>
      (fn_name sch = ''Glob'' \<longrightarrow> registered_params sch = [(''pattern'', True)]) \<and>
      (fn_name sch = ''Grep'' \<longrightarrow> registered_params sch = [(''query'', True), (''pattern'', False)]))"


section \<open>Tool calls and their dispatch\<close>

text \<open>
  The argument mapping of a tool call (\<open>dict(fc.args)\<close>, or the parsed JSON object).  Its
  keys are the ten parameter names of the schemas, each with a value of the type the
  schemas declare when present, and any other keys (\<open>arg_other_keys\<close>).
\<close>

record tool_args =
  arg_file_path :: "string option"
  arg_start_line :: "int option"
  arg_end_line :: "int option"
  arg_content :: "string option"
  arg_target_content :: "string option"
  arg_replacement_content :: "string option"
  arg_pattern :: "string option"
  arg_root_dir :: "string option"
  arg_query :: "string option"
  arg_command :: "string option"
  arg_other_keys :: "string list"

definition no_args :: tool_args where
  "no_args = \<lparr>arg_file_path = None, arg_start_line = None, arg_end_line = None,
     arg_content = None, arg_target_content = None, arg_replacement_content = None,
     arg_pattern = None, arg_root_dir = None, arg_query = None, arg_command = None,
     arg_other_keys = []\<rparr>"

definition key_if :: "bool \<Rightarrow> string \<Rightarrow> string list" where
  "key_if b k = (if b then [k] else [])"

definition present_keys :: "tool_args \<Rightarrow> string list" where
  "present_keys a =
     key_if (arg_file_path a \<noteq> None) ''file_path'' @
     key_if (arg_start_line a \<noteq> None) ''start_line'' @
     key_if (arg_end_line a \<noteq> None) ''end_line'' @
     key_if (arg_content a \<noteq> None) ''content'' @
     key_if (arg_target_content a \<noteq> None) ''target_content'' @
     key_if (arg_replacement_content a \<noteq> None) ''replacement_content'' @
     key_if (arg_pattern a \<noteq> None) ''pattern'' @
     key_if (arg_root_dir a \<noteq> None) ''root_dir'' @
     key_if (arg_query a \<noteq> None) ''query'' @
     key_if (arg_command a \<noteq> None) ''command'' @
     arg_other_keys a"

text \<open>
  \<open>f(**args)\<close>: a key that is no parameter of \<open>f\<close>, or a parameter without default that
  is missing, is a \<open>TypeError\<close> at the call.
\<close>

definition unexpected_keys :: "string list \<Rightarrow> tool_args \<Rightarrow> string list" where
  "unexpected_keys params a = filter (\<lambda>k. k \<notin> set params) (present_keys a)"

definition unexpected_keyword :: "string \<Rightarrow> exc" where
  "unexpected_keyword f = TypeError (f @ ''() got an unexpected keyword argument'')"

definition missing_argument :: "string \<Rightarrow> exc" where
  "missing_argument f = TypeError (f @ ''() missing required positional arguments'')"

text \<open>A tool returns a string, \<open>glob_files\<close> a list of strings; \<open>str(result)\<close>.\<close>

datatype tool_result = RStr string | RList "string list"

fun py_str :: "tool_result \<Rightarrow> string" where
  "py_str (RStr s) = s"
| "py_str (RList xs) = ''['' @ py_join '', '' (map (\<lambda>x. [CHR 0x27] @ x @ [CHR 0x27]) xs) @ '']''"

definition call_read_file :: "fs \<Rightarrow> tool_args \<Rightarrow> exc + (tool_result \<times> fs)" where
  "call_read_file fs a =
     (if unexpected_keys [''file_path'', ''start_line'', ''end_line''] a \<noteq> []
      then Inl (unexpected_keyword ''read_file'')
      else
        (case arg_file_path a of
           None \<Rightarrow> Inl (missing_argument ''read_file'')
         | Some p \<Rightarrow>
             (case read_file fs p (arg_start_line a) (arg_end_line a) of
                Inl e \<Rightarrow> Inl e
              | Inr s \<Rightarrow> Inr (RStr s, fs))))"

definition call_write_file :: "fs \<Rightarrow> tool_args \<Rightarrow> exc + (tool_result \<times> fs)" where
  "call_write_file fs a =
     (if unexpected_keys [''file_path'', ''content''] a \<noteq> []
      then Inl (unexpected_keyword ''write_file'')
      else
        (case (arg_file_path a, arg_content a) of
           (Some p, Some c) \<Rightarrow>
             (case write_file fs p c of
                Inl e \<Rightarrow> Inl e
              | Inr (s, fs') \<Rightarrow> Inr (RStr s, fs'))
         | _ \<Rightarrow> Inl (missing_argument ''write_file'')))"

definition call_edit_file :: "fs \<Rightarrow> tool_args \<Rightarrow> exc + (tool_result \<times> fs)" where
  "call_edit_file fs a =
     (if unexpected_keys [''file_path'', ''target_content'', ''replacement_content''] a \<noteq> []
      then Inl (unexpected_keyword ''edit_file'')
      else
        (case (arg_file_path a, arg_target_content a, arg_replacement_content a) of
           (Some p, Some t, Some r) \<Rightarrow>
             (case edit_file fs p t r of
                Inl e \<Rightarrow> Inl e
              | Inr (s, fs') \<Rightarrow> Inr (RStr s, fs'))
         | _ \<Rightarrow> Inl (missing_argument ''edit_file'')))"

definition call_glob_files :: "walker \<Rightarrow> fs \<Rightarrow> tool_args \<Rightarrow> exc + (tool_result \<times> fs)" where
  "call_glob_files wk fs a =
     (if unexpected_keys [''pattern'', ''root_dir''] a \<noteq> []
      then Inl (unexpected_keyword ''glob_files'')
      else
        (case arg_pattern a of
           None \<Rightarrow> Inl (missing_argument ''glob_files'')
         | Some pat \<Rightarrow>
             (case glob_files wk fs pat (case arg_root_dir a of Some d \<Rightarrow> d | None \<Rightarrow> ''.'') of
                Inl e \<Rightarrow> Inl e
              | Inr l \<Rightarrow> Inr (RList l, fs))))"

definition call_grep_files ::
  "regex_lib \<Rightarrow> walker \<Rightarrow> fs \<Rightarrow> tool_args \<Rightarrow> exc + (tool_result \<times> fs)" where
  "call_grep_files rc wk fs a =
     (if unexpected_keys [''query'', ''pattern'', ''root_dir''] a \<noteq> []
      then Inl (unexpected_keyword ''grep_files'')
      else
        (case arg_query a of
           None \<Rightarrow> Inl (missing_argument ''grep_files'')
         | Some q \<Rightarrow>
             (case grep_files rc wk fs q
                     (case arg_pattern a of Some pat \<Rightarrow> pat | None \<Rightarrow> ''*'')
                     (case arg_root_dir a of Some d \<Rightarrow> d | None \<Rightarrow> ''.'') of
                Inl e \<Rightarrow> Inl e
              | Inr s \<Rightarrow> Inr (RStr s, fs))))"

text \<open>
  What an engine runs on besides its configuration: the library functions and
  collaborators the tools take as parameters, the working directory of the process
  (\<open>Path.cwd()\<close>) and \<open>json.loads\<close>, which gives the argument mapping of an argument
  string or fails (\<open>None\<close>).
\<close>

record sys =
  sys_re_compile :: regex_lib
  sys_walk :: walker
  sys_validate_command :: gate
  sys_run_shell :: shell
  sys_cwd :: string
  sys_json_loads :: "string \<Rightarrow> tool_args option"

text \<open>\<open>Path(self.options.cwd) if self.options.cwd else Path.cwd()\<close>.\<close>

definition working_dir :: "sys \<Rightarrow> agent_options \<Rightarrow> string" where
  "working_dir sy opts =
     (case cwd opts of Some d \<Rightarrow> if d \<noteq> [] then d else sys_cwd sy | None \<Rightarrow> sys_cwd sy)"

definition is_absolute :: "string \<Rightarrow> bool" where
  "is_absolute p = (p \<noteq> [] \<and> hd p = CHR ''/'')"

text \<open>The path resolution before the dispatch: a relative \<open>file_path\<close> is joined to the
  working directory.\<close>

definition resolve_file_path :: "string \<Rightarrow> tool_args \<Rightarrow> tool_args" where
  "resolve_file_path wd a =
     (case arg_file_path a of
        None \<Rightarrow> a
      | Some fp \<Rightarrow> if \<not> is_absolute fp then a\<lparr>arg_file_path := Some (path_join wd fp)\<rparr> else a)"

definition default_root_dir :: "string \<Rightarrow> tool_args \<Rightarrow> tool_args" where
  "default_root_dir wd a = (if arg_root_dir a = None then a\<lparr>arg_root_dir := Some wd\<rparr> else a)"

text \<open>
  The dispatch chain of \<open>_handle_tool_calls\<close>, the same in both engines but for the
  string of the last branch, which is the parameter \<open>unknown\<close>.
\<close>

definition dispatch ::
  "sys \<Rightarrow> agent_options \<Rightarrow> (string \<Rightarrow> string) \<Rightarrow> fs \<Rightarrow> string \<Rightarrow> tool_args
     \<Rightarrow> exc + (tool_result \<times> fs)" where
  "dispatch sy opts unknown fs nm args0 =
     (let wd = working_dir sy opts;
          args = resolve_file_path wd args0
      in if nm = ''Read'' then call_read_file fs args
         else if nm = ''Write'' then call_write_file fs args
         else if nm = ''Edit'' then call_edit_file fs args
         else if nm = ''Glob'' then call_glob_files (sys_walk sy) fs (default_root_dir wd args)
         else if nm = ''Grep'' then
           call_grep_files (sys_re_compile sy) (sys_walk sy) fs (default_root_dir wd args)
         else if nm = ''Bash'' then
           (case execute_bash (sys_validate_command sy) (sys_run_shell sy) (sys_cwd sy) fs
                   (arg_command args) (cwd opts) of
              Inl e \<Rightarrow> Inl e
            | Inr (s, fs') \<Rightarrow> Inr (RStr s, fs'))
         else Inr (RStr (unknown nm), fs))"

section \<open>Messages on the wire and envelopes\<close>

text \<open>A chunk of the chat API: candidates, each with the parts of its content; a part
  has a text, a function call, both or neither.\<close>

record function_call =
  fc_name :: string
  fc_args :: tool_args

datatype part = Part (part_text: "string option") (part_function_call: "function_call option")

datatype gchunk = GChunk (candidates: "part list list")

text \<open>What is sent to the chat session: the user message, or the packaged tool results
  (name and result of each call).\<close>

datatype ginput = UserText string | ToolResults "(string \<times> tool_result) list"

text \<open>A chunk of the delta API is its \<open>choices[0].delta\<close>: a text fragment and the
  tool-call fragments, each addressed by an index.\<close>

record tc_chunk =
  tcc_index :: nat
  tcc_id :: "string option"
  tcc_name :: "string option"
  tcc_arguments :: "string option"

record delta =
  delta_content :: "string option"
  delta_tool_calls :: "tc_chunk list"

text \<open>A reconstructed call: \<open>{"id", "type": "function", "function": {"name", "arguments"}}\<close>.\<close>

record tool_call =
  tc_id :: string
  tc_name :: string
  tc_arguments :: string

text \<open>An entry of the conversation history of the delta-API engine.\<close>

datatype message =
    SystemMsg string
  | UserMsg string
  | AssistantMsg string
  | AssistantToolCalls "string option" "tool_call list"
  | ToolMsg string string string

fun role :: "message \<Rightarrow> string" where
  "role (SystemMsg c) = ''system''"
| "role (UserMsg c) = ''user''"
| "role (AssistantMsg c) = ''assistant''"
| "role (AssistantToolCalls c tcs) = ''assistant''"
| "role (ToolMsg i n c) = ''tool''"

text \<open>\<open>m["content"] = c\<close>.\<close>

fun set_content :: "message \<Rightarrow> string \<Rightarrow> message" where
  "set_content (SystemMsg _) c = SystemMsg c"
| "set_content (UserMsg _) c = UserMsg c"
| "set_content (AssistantMsg _) c = AssistantMsg c"
| "set_content (AssistantToolCalls _ tcs) c = AssistantToolCalls (Some c) tcs"
| "set_content (ToolMsg i n _) c = ToolMsg i n c"

text \<open>
  What \<open>receive_response\<close> yields: \<open>AssistantMessage(chunk)\<close> and
  \<open>UserMessage(tool_use_id, content)\<close>.  What a run does is a trace of events: a request
  to the backend, or an envelope handed to the caller.
\<close>

datatype chunk = GeminiChunk gchunk | OpenAIChunk delta | StrChunk string

datatype envelope = AssistantMessage chunk | UserMessage string tool_result

datatype 'r event = Request 'r | Emit envelope

text \<open>How a generator stands after some rounds of its loop: it has returned, it is still
  in the loop, or an exception has left it.\<close>

datatype status = Completed | Running | Raised exc

section \<open>The delta-API engine (OpenAIAgentEngine)\<close>

record openai_engine =
  o_options :: agent_options
  o_api_key :: string
  o_base_url :: string
  o_system_prompt :: string
  o_history :: "message list"

text \<open>\<open>_set_system_prompt_msg\<close>, on the history.\<close>

definition set_system_prompt_msg :: "string \<Rightarrow> message list \<Rightarrow> message list" where
  "set_system_prompt_msg sp history =
     (case history of
        [] \<Rightarrow> [SystemMsg sp]
      | m # rest \<Rightarrow>
          if role m = ''system'' then set_content m sp # rest
          else SystemMsg sp # m # rest)"

text \<open>
  \<open>__init__\<close>.  \<open>openai_installed\<close> says whether \<open>from openai import AsyncOpenAI\<close>
  succeeds; \<open>os_environ\<close> is the environment of the process.
\<close>

definition openai_init :: "bool \<Rightarrow> environ \<Rightarrow> agent_options \<Rightarrow> exc + openai_engine" where
  "openai_init openai_installed os_environ opts =
     (if \<not> openai_installed
      then Inl (RuntimeError
             (''openai package not installed. Run '' @ [CHR 0x27] @ ''pip install openai'' @ [CHR 0x27]))
      else
        (let e = options_env opts;
             api_key = py_or (e ''ZAI_API_KEY'')
                         (py_or (e ''OPENAI_API_KEY'')
                            (py_or (os_environ ''ZAI_API_KEY'') (os_environ ''OPENAI_API_KEY'')));
             base_url = (case py_or (e ''OPENAI_BASE_URL'') (os_environ ''OPENAI_BASE_URL'') of
                           Some u \<Rightarrow> if u \<noteq> [] then u else ''https://api.openai.com/v1''
                         | None \<Rightarrow> ''https://api.openai.com/v1'');
             base_url' = (if contains ''z.ai'' base_url \<or> contains ''glm'' (lower (model opts))
                          then (if base_url = [] \<or> contains ''api.openai.com'' base_url
                                then ''https://api.z.ai/api/coding/paas/v4'' else base_url)
                          else base_url);
             api_key' = (case api_key of
                           Some k \<Rightarrow> if k \<noteq> [] then k else ''dummy-key''
                         | None \<Rightarrow> ''dummy-key'')
         in Inr \<lparr>o_options = opts, o_api_key = api_key', o_base_url = base_url',
                 o_system_prompt = system_prompt opts,
                 o_history = set_system_prompt_msg (system_prompt opts) []\<rparr>))"

definition openai_set_system_prompt :: "string \<Rightarrow> openai_engine \<Rightarrow> openai_engine" where
  "openai_set_system_prompt prompt eng =
     eng\<lparr>o_system_prompt := prompt, o_history := set_system_prompt_msg prompt (o_history eng)\<rparr>"

definition openai_query :: "string \<Rightarrow> openai_engine \<Rightarrow> openai_engine" where
  "openai_query msg eng = eng\<lparr>o_history := o_history eng @ [UserMsg msg]\<rparr>"

text \<open>The reconstruction of the streamed tool calls: \<open>if x: s += x\<close>, the body of the loop
  over \<open>delta.tool_calls\<close>, and that loop.\<close>

definition empty_call :: tool_call where
  "empty_call = \<lparr>tc_id = [], tc_name = [], tc_arguments = []\<rparr>"

definition append_if :: "string \<Rightarrow> string option \<Rightarrow> string" where
  "append_if s x = (case x of Some v \<Rightarrow> if v \<noteq> [] then s @ v else s | None \<Rightarrow> s)"

definition add_to_call :: "tool_call \<Rightarrow> tc_chunk \<Rightarrow> tool_call" where
  "add_to_call tc c =
     \<lparr>tc_id = append_if (tc_id tc) (tcc_id c),
      tc_name = append_if (tc_name tc) (tcc_name c),
      tc_arguments = append_if (tc_arguments tc) (tcc_arguments c)\<rparr>"

definition add_tc_chunk :: "tool_call list \<Rightarrow> tc_chunk \<Rightarrow> exc + tool_call list" where
  "add_tc_chunk tool_calls c =
     (let tcs = (if length tool_calls \<le> tcc_index c then tool_calls @ [empty_call]
                 else tool_calls)
      in if tcc_index c < length tcs
         then Inr (tcs[tcc_index c := add_to_call (tcs ! tcc_index c) c])
         else Inl (IndexError ''list index out of range''))"

fun add_tc_chunks :: "tool_call list \<Rightarrow> tc_chunk list \<Rightarrow> exc + tool_call list" where
  "add_tc_chunks tool_calls [] = Inr tool_calls"
| "add_tc_chunks tool_calls (c # cs) =
     (case add_tc_chunk tool_calls c of
        Inl e \<Rightarrow> Inl e
      | Inr tcs \<Rightarrow> add_tc_chunks tcs cs)"

text \<open>
  The loop over the chunks of one response: the calls reconstructed so far, the text so
  far and the trace.  An exception leaves the loop with what was yielded before it.
\<close>

type_synonym otrace = "message list event list"

fun consume_stream ::
  "delta list \<Rightarrow> tool_call list \<times> string \<times> otrace
     \<Rightarrow> exc option \<times> tool_call list \<times> string \<times> otrace" where
  "consume_stream [] st = (None, st)"
| "consume_stream (d # ds) (tool_calls, current_content, tr) =
     (let (content', tr') =
            (case delta_content d of
               Some t \<Rightarrow> if t \<noteq> [] then (current_content @ t,
                                            tr @ [Emit (AssistantMessage (OpenAIChunk d))])
                         else (current_content, tr)
             | None \<Rightarrow> (current_content, tr))
      in case add_tc_chunks tool_calls (delta_tool_calls d) of
           Inl e \<Rightarrow> (Some e, (tool_calls, content', tr'))
         | Inr tcs \<Rightarrow> consume_stream ds (tcs, content', tr'))"

text \<open>\<open>_handle_tool_calls\<close>: every call is parsed, dispatched, appended to the history as
  a \<open>tool\<close> entry and yielded.\<close>

definition openai_unknown :: "string \<Rightarrow> string" where
  "openai_unknown nm = ''Error: Tool '' @ nm @ '' not found''"

fun openai_handle_tool_calls ::
  "sys \<Rightarrow> agent_options \<Rightarrow> tool_call list \<Rightarrow> message list \<times> fs \<times> otrace
     \<Rightarrow> exc option \<times> message list \<times> fs \<times> otrace" where
  "openai_handle_tool_calls sy opts [] st = (None, st)"
| "openai_handle_tool_calls sy opts (tc # rest) (h, fs, tr) =
     (let args = (case sys_json_loads sy (tc_arguments tc) of Some a \<Rightarrow> a | None \<Rightarrow> no_args)
      in case dispatch sy opts openai_unknown fs (tc_name tc) args of
           Inl e \<Rightarrow> (Some e, (h, fs, tr))
         | Inr (result, fs') \<Rightarrow>
             openai_handle_tool_calls sy opts rest
               (h @ [ToolMsg (tc_id tc) (tc_name tc) (py_str result)], fs',
                tr @ [Emit (UserMessage (tc_id tc) (RStr (py_str result)))]))"

text \<open>
  The \<open>while True\<close> of \<open>receive_response\<close>.  The backend answers a request (the history
  sent as \<open>messages\<close>) with a stream of chunks.  The first argument counts the rounds
  that are followed: with none left the generator is still in its loop.
\<close>

type_synonym openai_backend = "message list \<Rightarrow> delta list"

fun openai_loop ::
  "nat \<Rightarrow> sys \<Rightarrow> openai_backend \<Rightarrow> agent_options \<Rightarrow> message list \<times> fs \<times> otrace
     \<Rightarrow> status \<times> message list \<times> fs \<times> otrace" where
  "openai_loop 0 sy backend opts st = (Running, st)"
| "openai_loop (Suc n) sy backend opts (h, fs, tr) =
     (case consume_stream (backend h) ([], [], tr @ [Request h]) of
        (Some e, (tool_calls, current_content, tr')) \<Rightarrow> (Raised e, (h, fs, tr'))
      | (None, (tool_calls, current_content, tr')) \<Rightarrow>
          (let h1 = (if current_content \<noteq> [] then h @ [AssistantMsg current_content] else h)
           in if tool_calls \<noteq> [] then
                (case openai_handle_tool_calls sy opts tool_calls
                        (h1 @ [AssistantToolCalls
                                 (if current_content \<noteq> [] then Some current_content else None)
                                 tool_calls], fs, tr') of
                   (Some e, st') \<Rightarrow> (Raised e, st')
                 | (None, st') \<Rightarrow> openai_loop n sy backend opts st')
              else (Completed, (h1, fs, tr'))))"

text \<open>\<open>receive_response\<close>: the tools are declared once, then the loop runs on the
  history of the engine.  The backend is given the declared tools.\<close>

definition openai_receive_response ::
  "nat \<Rightarrow> sys \<Rightarrow> (openai_tool list \<Rightarrow> openai_backend) \<Rightarrow> openai_engine \<Rightarrow> fs
     \<Rightarrow> status \<times> openai_engine \<times> fs \<times> otrace" where
  "openai_receive_response n sy backend eng fs =
     (let tools = get_openai_tools (allowed_tools (o_options eng))
      in case openai_loop n sy (backend tools) (o_options eng) (o_history eng, fs, []) of
           (st, (h, fs', tr)) \<Rightarrow> (st, (eng\<lparr>o_history := h\<rparr>, fs', tr)))"

section \<open>The chat-API engine (GeminiAgentEngine)\<close>

text \<open>
  The chat session is the list of inputs sent to it; the backend answers the last one,
  knowing the earlier ones.  \<open>g_current_response\<close> is \<open>None\<close> until the first query.
\<close>

record gemini_engine =
  g_options :: agent_options
  g_api_key :: string
  g_model_tools :: "gemini_tool list"
  g_tools_configured :: bool
  g_sent :: "ginput list"
  g_current_response :: "gchunk list option"
  g_pending_tool_results :: "envelope list"



text \<open>\<open>__init__\<close>.  \<open>genai_installed\<close> says whether \<open>import google.generativeai\<close>
  succeeds.\<close>

definition gemini_init :: "bool \<Rightarrow> environ \<Rightarrow> agent_options \<Rightarrow> exc + gemini_engine" where
  "gemini_init genai_installed os_environ opts =
     (if \<not> genai_installed then Inl (ImportError ''No module named google.generativeai'')
      else
        (let e = options_env opts;
             api_key = py_or (e ''GEMINI_API_KEY'') (os_environ ''GEMINI_API_KEY'');
             api_key' = (if \<not> truthy api_key
                         then py_or (e ''GOOGLE_API_KEY'') (os_environ ''GOOGLE_API_KEY'')
                         else api_key)
         in case api_key' of
              None \<Rightarrow> Inl (ValueError ''GEMINI_API_KEY or GOOGLE_API_KEY must be provided'')
            | Some k \<Rightarrow>
                if k = [] then Inl (ValueError ''GEMINI_API_KEY or GOOGLE_API_KEY must be provided'')
                else Inr \<lparr>g_options = opts, g_api_key = k,
                          g_model_tools = get_agent_allowed_tools (allowed_tools opts),
                          g_tools_configured = False, g_sent = [],
                          g_current_response = None, g_pending_tool_results = []\<rparr>))"

text \<open>\<open>set_system_prompt\<close>: the model is built again, the chat restarts with its history.\<close>

definition gemini_set_system_prompt :: "string \<Rightarrow> gemini_engine \<Rightarrow> gemini_engine" where
  "gemini_set_system_prompt prompt eng =
     eng\<lparr>g_options := (g_options eng)\<lparr>system_prompt := prompt\<rparr>,
         g_model_tools := get_agent_allowed_tools (allowed_tools (g_options eng))\<rparr>"











section \<open>Library functions of the subprocess engine\<close>

text \<open>
  \<open>str.format\<close> with keyword arguments only, for templates whose replacement fields are
  plain names: \<open>{{\<close> and \<open>}}\<close> are literal braces, \<open>{name}\<close> is the value of the keyword
  \<open>name\<close>.  A name that is no keyword is a \<open>KeyError\<close>, an empty or numeric field an
  \<open>IndexError\<close> (there are no positional arguments), an unmatched brace a \<open>ValueError\<close>.
  Conversions, format specifications, attributes and indices inside a field are outside
  this model.
\<close>

datatype fmt_state = Literal | AfterOpen | InField string | AfterClose

definition emit_char :: "char \<Rightarrow> exc + string \<Rightarrow> exc + string" where
  "emit_char c r = (case r of Inl e \<Rightarrow> Inl e | Inr s \<Rightarrow> Inr (c # s))"

definition emit_text :: "string \<Rightarrow> exc + string \<Rightarrow> exc + string" where
  "emit_text t r = (case r of Inl e \<Rightarrow> Inl e | Inr s \<Rightarrow> Inr (t @ s))"

definition is_digit :: "char \<Rightarrow> bool" where
  "is_digit c = (48 \<le> (of_char c :: nat) \<and> (of_char c :: nat) \<le> 57)"

fun format_scan :: "(string \<Rightarrow> string option) \<Rightarrow> fmt_state \<Rightarrow> string \<Rightarrow> exc + string" where
  "format_scan kw Literal [] = Inr []"
| "format_scan kw AfterOpen [] = Inl (ValueError ''Single { encountered in format string'')"
| "format_scan kw (InField n) [] = Inl (ValueError ''expected } before end of string'')"
| "format_scan kw AfterClose [] = Inl (ValueError ''Single } encountered in format string'')"
| "format_scan kw Literal (c # s) =
     (if c = CHR ''{'' then format_scan kw AfterOpen s
      else if c = CHR ''}'' then format_scan kw AfterClose s
      else emit_char c (format_scan kw Literal s))"
| "format_scan kw AfterOpen (c # s) =
     (if c = CHR ''{'' then emit_char c (format_scan kw Literal s)
      else if c = CHR ''}'' then Inl (IndexError ''Replacement index 0 out of range'')
      else format_scan kw (InField [c]) s)"
| "format_scan kw (InField n) (c # s) =
     (if c = CHR ''}'' then
        (if list_all is_digit n then Inl (IndexError ''Replacement index out of range'')
         else (case kw n of
                 None \<Rightarrow> Inl (KeyError n)
               | Some v \<Rightarrow> emit_text v (format_scan kw Literal s)))
      else format_scan kw (InField (n @ [c])) s)"
| "format_scan kw AfterClose (c # s) =
     (if c = CHR ''}'' then emit_char c (format_scan kw Literal s)
      else Inl (ValueError ''Single } encountered in format string''))"

definition py_format :: "(string \<Rightarrow> string option) \<Rightarrow> string \<Rightarrow> exc + string" where
  "py_format kw template = format_scan kw Literal template"

text \<open>
  \<open>shlex.split\<close> (POSIX mode, no comments): words are separated by white space; quotes
  group and are removed, and a pair of quotes with nothing inside is an empty word; a
  backslash takes the next character literally, inside double quotes only before a double
  quote or a backslash, inside single quotes not at all.  An open quote or a backslash at
  the end is a \<open>ValueError\<close>.
\<close>

datatype lex_state = Between | InWord | InQuote char | Escaped "char option"

definition is_shell_space :: "char \<Rightarrow> bool" where
  "is_shell_space c = (c = CHR '' '' \<or> c = CHR 0x09 \<or> c = CR \<or> c = LF)"

definition is_shell_quote :: "char \<Rightarrow> bool" where
  "is_shell_quote c = (c = CHR 0x27 \<or> c = CHR 0x22)"

definition emit_word :: "string \<Rightarrow> exc + string list \<Rightarrow> exc + string list" where
  "emit_word w r = (case r of Inl e \<Rightarrow> Inl e | Inr ws \<Rightarrow> Inr (w # ws))"

fun shlex_scan :: "lex_state \<Rightarrow> string \<Rightarrow> string \<Rightarrow> exc + string list" where
  "shlex_scan Between tok [] = Inr []"
| "shlex_scan InWord tok [] = Inr [tok]"
| "shlex_scan (InQuote q) tok [] = Inl (ValueError ''No closing quotation'')"
| "shlex_scan (Escaped ret) tok [] = Inl (ValueError ''No escaped character'')"
| "shlex_scan Between tok (c # s) =
     (if is_shell_space c then shlex_scan Between [] s
      else if c = CHR 0x5C then shlex_scan (Escaped None) [] s
      else if is_shell_quote c then shlex_scan (InQuote c) [] s
      else shlex_scan InWord [c] s)"
| "shlex_scan InWord tok (c # s) =
     (if is_shell_space c then emit_word tok (shlex_scan Between [] s)
      else if is_shell_quote c then shlex_scan (InQuote c) tok s
      else if c = CHR 0x5C then shlex_scan (Escaped None) tok s
      else shlex_scan InWord (tok @ [c]) s)"
| "shlex_scan (InQuote q) tok (c # s) =
     (if c = q then shlex_scan InWord tok s
      else if c = CHR 0x5C \<and> q = CHR 0x22 then shlex_scan (Escaped (Some q)) tok s
      else shlex_scan (InQuote q) (tok @ [c]) s)"
| "shlex_scan (Escaped None) tok (c # s) = shlex_scan InWord (tok @ [c]) s"
| "shlex_scan (Escaped (Some q)) tok (c # s) =
     shlex_scan (InQuote q) (if c \<noteq> CHR 0x5C \<and> c \<noteq> q then tok @ [CHR 0x5C, c] else tok @ [c]) s"

definition shlex_split :: "string \<Rightarrow> exc + string list" where
  "shlex_split s = shlex_scan Between [] s"

section \<open>The subprocess engine (CustomCliAgentEngine)\<close>

text \<open>\<open>_load_session_id\<close>: the marker file under the spec directory, stripped; \<open>None\<close>
  without a spec directory, without the file, or when the file cannot be read.\<close>

definition load_session_id :: "fs \<Rightarrow> agent_options \<Rightarrow> string option" where
  "load_session_id fs opts =
     (case spec_dir opts of
        None \<Rightarrow> None
      | Some d \<Rightarrow>
          if d = [] then None
          else
            (let session_file = path_join d ''.droid_session_id'' in
             if exists fs session_file then
               (case read_text fs session_file of
                  Inl e \<Rightarrow> None
                | Inr s \<Rightarrow> Some (py_strip s))
             else None))"

definition default_template :: string where
  "default_template =
     ''droid exec --model {model} --output-format stream-json --input-format stream-json --auto low''"

text \<open>The clean-up loop of \<open>receive_response\<close>: a flag of the four followed by an empty
  argument is dropped with that argument.\<close>

fun filtered_args :: "string list \<Rightarrow> string list" where
  "filtered_args [] = []"
| "filtered_args [arg] = [arg]"
| "filtered_args (arg # nxt # rest) =
     (if arg \<in> set [''--session-id'', ''-s'', ''--spec-dir'', ''--project-dir''] \<and> nxt = []
      then filtered_args rest
      else arg # filtered_args (nxt # rest))"

text \<open>
  The head of \<open>receive_response\<close>, up to the argument list: the template from the
  environment or the default one, the session flag appended when a session is known and
  the template holds none of \<open>{sessionId}\<close>, \<open>-s\<close>, \<open>--session-id\<close>, the substitution,
  the split and the clean-up.  All of it is outside the \<open>try\<close>.
\<close>

definition session_template :: "string option \<Rightarrow> string \<Rightarrow> string" where
  "session_template session_id template =
     (if truthy session_id \<and> \<not> contains ''{sessionId}'' template \<and> \<not> contains ''-s'' template \<and>
         \<not> contains ''--session-id'' template
      then template @ '' -s {sessionId}''
      else template)"

definition or_default :: "string option \<Rightarrow> string \<Rightarrow> string" where
  "or_default v d = (case v of Some s \<Rightarrow> if s \<noteq> [] then s else d | None \<Rightarrow> d)"

definition format_fields :: "agent_options \<Rightarrow> string option \<Rightarrow> string \<Rightarrow> string option" where
  "format_fields opts session_id =
     (\<lambda>_. None)(''model'' \<mapsto> (if model opts \<noteq> [] then model opts
                                else ''custom:GLM-4.7-[Z.AI-Coding-Plan]-7''),
                ''projectDir'' \<mapsto> or_default (cwd opts) ''.'',
                ''specDir'' \<mapsto> or_default (spec_dir opts) ''.'',
                ''sessionId'' \<mapsto> or_default session_id '''')"

definition custom_cli_args :: "environ \<Rightarrow> agent_options \<Rightarrow> string option \<Rightarrow> exc + string list" where
  "custom_cli_args os_environ opts session_id =
     (let template = session_template session_id
            (case os_environ ''AUTO_CLAUDE_CUSTOM_CLI_TEMPLATE'' of
               Some t \<Rightarrow> t | None \<Rightarrow> default_template)
      in case py_format (format_fields opts session_id) template of
           Inl e \<Rightarrow> Inl e
         | Inr cmd_str \<Rightarrow>
             (case shlex_split cmd_str of
                Inl e \<Rightarrow> Inl e
              | Inr args \<Rightarrow> Inr (filtered_args args)))"

section \<open>Notions of the claims and concrete scenarios\<close>

subsection \<open>Construction\<close>

text \<open>No key under the name \<open>k\<close>: neither the overrides of the configuration nor the
  environment of the process hold a non-empty value for it.\<close>

definition no_key :: "environ \<Rightarrow> agent_options \<Rightarrow> string \<Rightarrow> bool" where
  "no_key os_environ opts k = (\<not> truthy (options_env opts k) \<and> \<not> truthy (os_environ k))"

text \<open>A configuration without overrides, used at the concrete inputs below.\<close>

definition bare_options :: agent_options where
  "bare_options = \<lparr>model = ''gpt-4o'', system_prompt = ''You are a coding agent.'',
     provider = None, spec_dir = None, allowed_tools = [''Read''], max_turns = 1000,
     cwd = None, env = None\<rparr>"

subsection \<open>Delta streams\<close>

text \<open>The indices of a delta stream arrive without gaps when every delta addresses a slot
  that exists already or the next new one; \<open>n\<close> is the number of slots so far.\<close>

fun gap_free :: "nat \<Rightarrow> tc_chunk list \<Rightarrow> bool" where
  "gap_free n [] = True"
| "gap_free n (c # cs) = (tcc_index c \<le> n \<and> gap_free (max n (Suc (tcc_index c))) cs)"

text \<open>The text a fragment field adds: nothing when the field is absent.\<close>

definition field_text :: "string option \<Rightarrow> string" where
  "field_text x = (case x of Some v \<Rightarrow> v | None \<Rightarrow> [])"

text \<open>The deltas of a stream that are addressed to index \<open>i\<close>, in their order.\<close>

definition addressed_to :: "nat \<Rightarrow> tc_chunk list \<Rightarrow> tc_chunk list" where
  "addressed_to i cs = filter (\<lambda>c. tcc_index c = i) cs"

text \<open>The call at index \<open>i\<close> of the list, an empty call where the list has none yet.\<close>

definition slot :: "tool_call list \<Rightarrow> nat \<Rightarrow> tool_call" where
  "slot tcs i = (if i < length tcs then tcs ! i else empty_call)"

text \<open>The two chunks of the scenario of section 8 of the specification.\<close>

definition bash_delta_1 :: delta where
  \<open>bash_delta_1 = \<lparr>delta_content = None,
     delta_tool_calls = [\<lparr>tcc_index = 0, tcc_id = None, tcc_name = Some ''Bash'',
                          tcc_arguments = Some ''{"comm''\<rparr>]\<rparr>\<close>

definition bash_delta_2 :: delta where
  \<open>bash_delta_2 = \<lparr>delta_content = None,
     delta_tool_calls = [\<lparr>tcc_index = 0, tcc_id = None, tcc_name = None,
                          tcc_arguments = Some ''and":"ls"}''\<rparr>]\<rparr>\<close>

subsection \<open>Operations on the delta-API engine\<close>

text \<open>The operations on a constructed delta-API engine; \<open>ReceiveResponse n\<close> consumes the
  response through \<open>n\<close> rounds of its loop (or to its end, when that comes first).\<close>

datatype openai_op = SetSystemPrompt string | Query string | ReceiveResponse nat

fun openai_step ::
  "sys \<Rightarrow> (openai_tool list \<Rightarrow> openai_backend) \<Rightarrow> openai_engine \<times> fs \<Rightarrow> openai_op
     \<Rightarrow> openai_engine \<times> fs" where
  "openai_step sy backend (eng, fs) (SetSystemPrompt prompt) = (openai_set_system_prompt prompt eng, fs)"
| "openai_step sy backend (eng, fs) (Query msg) = (openai_query msg eng, fs)"
| "openai_step sy backend (eng, fs) (ReceiveResponse n) =
     (case openai_receive_response n sy backend eng fs of
        (st, (eng', fs', tr)) \<Rightarrow> (eng', fs'))"

text \<open>The invariant of the history in the words of the specification: at most one entry
  has the role \<open>system\<close>, and when there is one the first entry has it.\<close>

definition system_first :: "message list \<Rightarrow> bool" where
  "system_first h =
     (length (filter (\<lambda>m. role m = ''system'') h) \<le> 1 \<and>
      (filter (\<lambda>m. role m = ''system'') h \<noteq> [] \<longrightarrow> h \<noteq> [] \<and> role (hd h) = ''system''))"

subsection \<open>Concrete systems, backends and engines\<close>

text \<open>
  A concrete system for the scenarios below: no file matches a walk, the gate allows
  every command, a command prints nothing, the process runs in \<open>/work\<close>, and
  \<open>json.loads\<close> is given on the one argument string the scenarios use.
\<close>

definition stub_sys :: sys where
  \<open>stub_sys = \<lparr>sys_re_compile = (\<lambda>q. Inr (contains q)),
     sys_walk = (\<lambda>f r p. []),
     sys_validate_command = (\<lambda>c d. Inr (True, [])),
     sys_run_shell = (\<lambda>f c d. (CompletedProcess [] [], f)),
     sys_cwd = ''/work'',
     sys_json_loads = (\<lambda>s. if s = ''{"file_path":"a.txt"}''
                            then Some (no_args\<lparr>arg_file_path := Some ''a.txt''\<rparr>) else None)\<rparr>\<close>

text \<open>A file system with one readable file, and the chunks and backends of the scenarios:
  a chunk that calls Read on \<open>a.txt\<close>, a chunk of text, and a backend that asks for the
  tool until the history holds \<open>k\<close> tool results.\<close>

definition one_file :: fs where
  "one_file = (\<lambda>_. None)(''/work/a.txt'' \<mapsto> File True True (Text ''hello''))"

definition read_call_delta :: delta where
  \<open>read_call_delta = \<lparr>delta_content = None,
     delta_tool_calls = [\<lparr>tcc_index = 0, tcc_id = Some ''call_1'', tcc_name = Some ''Read'',
                          tcc_arguments = Some ''{"file_path":"a.txt"}''\<rparr>]\<rparr>\<close>

definition done_delta :: delta where
  "done_delta = \<lparr>delta_content = Some ''done'', delta_tool_calls = []\<rparr>"

definition tool_rounds :: "nat \<Rightarrow> openai_tool list \<Rightarrow> openai_backend" where
  "tool_rounds k tools h =
     (if length (filter (\<lambda>m. role m = ''tool'') h) < k then [read_call_delta] else [done_delta])"

definition read_call :: tool_call where
  \<open>read_call = \<lparr>tc_id = ''call_1'', tc_name = ''Read'', tc_arguments = ''{"file_path":"a.txt"}''\<rparr>\<close>

text \<open>The engine that the construction returns for \<open>bare_options\<close>.\<close>

definition bare_engine :: openai_engine where
  "bare_engine = \<lparr>o_options = bare_options, o_api_key = ''dummy-key'',
          o_base_url = ''https://api.openai.com/v1'',
          o_system_prompt = ''You are a coding agent.'',
          o_history = [SystemMsg ''You are a coding agent.'']\<rparr>"

subsection \<open>Traces\<close>


















subsection \<open>A persisted session marker\<close>

text \<open>A spec directory whose marker file holds \<open>sess-42\<close>, and the configuration that
  names it.\<close>

definition marker_fs :: fs where
  "marker_fs = (\<lambda>_. None)(''/spec'' \<mapsto> Dir,
       ''/spec/.droid_session_id'' \<mapsto> File True True (Text (''sess-42'' @ [LF])))"

definition spec_options :: agent_options where
  "spec_options = bare_options\<lparr>spec_dir := Some ''/spec''\<rparr>"

section \<open>Substring search and replacement\<close>







section \<open>Edit\<close>






section \<open>The tools return their failures\<close>
















section \<open>Registered tool schemas\<close>


lemma openai_schemas_append:
  "openai_schemas (a @ b) = openai_schemas a @ openai_schemas b"
  by (induction a rule: openai_schemas.induct) simp_all

lemma gemini_schemas_append:
  "gemini_schemas (a @ b) = gemini_schemas a @ gemini_schemas b"
  by (induction a rule: gemini_schemas.induct) simp_all

lemma openai_names:
  "map fn_name (openai_schemas (get_openai_tools ts)) = filter (\<lambda>n. n \<in> set supported_tools) ts"
  by (induction ts) (simp_all add: openai_schemas_append openai_tool_of_def supported_tools_def)

lemma gemini_names:
  "map fn_name (gemini_schemas (get_agent_allowed_tools ts)) =
     filter (\<lambda>n. n \<in> set supported_tools) ts"
  by (induction ts)
     (simp_all add: gemini_schemas_append gemini_tool_of_def make_gemini_tool_def
        supported_tools_def)

lemma openai_tool_of_params:
  "sch \<in> set (openai_schemas (openai_tool_of nm)) \<Longrightarrow> params_as_registered sch"
  by (auto simp: openai_tool_of_def params_as_registered_def registered_params_def
      spec_tool_params_def split: if_splits)

lemma gemini_tool_of_params:
  "sch \<in> set (gemini_schemas (gemini_tool_of nm)) \<Longrightarrow> params_as_registered sch"
  by (auto simp: gemini_tool_of_def make_gemini_tool_def params_as_registered_def
      registered_params_def spec_tool_params_def split: if_splits)

lemma openai_params:
  "sch \<in> set (openai_schemas (get_openai_tools ts)) \<Longrightarrow> params_as_registered sch"
  by (induction ts) (auto simp: openai_schemas_append dest: openai_tool_of_params)

lemma gemini_params:
  "sch \<in> set (gemini_schemas (get_agent_allowed_tools ts)) \<Longrightarrow> params_as_registered sch"
  by (induction ts) (auto simp: gemini_schemas_append dest: gemini_tool_of_params)

text \<open>
  Claim C2, as the code has it.  Each adapter walks the list \<open>allowed_tools\<close> and registers
  one schema for every entry that is one of the six supported names, in the order of the
  list: a name outside the six is never registered, and a tool is registered once when
  the list names it once.  Read, Write, Edit and Bash are registered with exactly the
  parameters of section 6; Glob is registered as \<open>Glob{pattern}\<close> and Grep as
  \<open>Grep{query, pattern?}\<close>.
\<close>

theorem registered_schemas:
  "map fn_name (openai_schemas (get_openai_tools ts)) = filter (\<lambda>n. n \<in> set supported_tools) ts \<and>
   map fn_name (gemini_schemas (get_agent_allowed_tools ts)) =
     filter (\<lambda>n. n \<in> set supported_tools) ts \<and>
   (\<forall>sch \<in> set (openai_schemas (get_openai_tools ts)) \<union>
            set (gemini_schemas (get_agent_allowed_tools ts)). params_as_registered sch) \<and>
   (distinct ts \<longrightarrow> distinct (map fn_name (openai_schemas (get_openai_tools ts))) \<and>
                   distinct (map fn_name (gemini_schemas (get_agent_allowed_tools ts))))"
  using openai_names [of ts] gemini_names [of ts] openai_params [of _ ts] gemini_params [of _ ts]
  by auto

theorem registered_schemas_witness:
  "map fn_name (openai_schemas (get_openai_tools [''Read'', ''Task'', ''Bash''])) = [''Read'', ''Bash''] \<and>
   distinct (map fn_name (gemini_schemas (get_agent_allowed_tools [''Read'', ''Task'', ''Bash'']))) \<and>
   map (\<lambda>sch. Some (registered_params sch))
       (openai_schemas (get_openai_tools [''Read'', ''Task'', ''Bash'']))
     = [spec_tool_params ''Read'', spec_tool_params ''Bash'']"
  using registered_schemas [of "[''Read'', ''Task'', ''Bash'']"]
  by (simp add: supported_tools_def openai_tool_of_def registered_params_def spec_tool_params_def)

text \<open>
  Claim C2 as stated fails: the schema registered for Glob (and for Grep) has no
  \<open>root_dir\<close>, and a list that names Read twice registers Read twice.
\<close>

theorem registered_schemas_counterexample:
  "map (\<lambda>sch. Some (registered_params sch)) (openai_schemas (get_openai_tools [''Glob'']))
     = [Some [(''pattern'', True)]] \<and>
   [Some [(''pattern'', True)]] \<noteq> [spec_tool_params ''Glob''] \<and>
   map (\<lambda>sch. Some (registered_params sch)) (gemini_schemas (get_agent_allowed_tools [''Grep'']))
     = [Some [(''query'', True), (''pattern'', False)]] \<and>
   [Some [(''query'', True), (''pattern'', False)]] \<noteq> [spec_tool_params ''Grep''] \<and>
   map fn_name (openai_schemas (get_openai_tools [''Read'', ''Read''])) = [''Read'', ''Read''] \<and>
   \<not> distinct (map fn_name (openai_schemas (get_openai_tools [''Read'', ''Read''])))"
  by (simp add: openai_tool_of_def gemini_tool_of_def make_gemini_tool_def registered_params_def
      spec_tool_params_def)


section \<open>Construction without an API key\<close>

lemma py_or_falsy: "\<not> truthy a \<Longrightarrow> \<not> truthy b \<Longrightarrow> \<not> truthy (py_or a b)"
  by (simp add: py_or_def)

lemma gemini_init_no_key:
  assumes "no_key os_environ opts ''GEMINI_API_KEY''" and "no_key os_environ opts ''GOOGLE_API_KEY''"
  shows "gemini_init True os_environ opts =
           Inl (ValueError ''GEMINI_API_KEY or GOOGLE_API_KEY must be provided'')"
proof -
  have a: "\<not> truthy (py_or (options_env opts ''GEMINI_API_KEY'') (os_environ ''GEMINI_API_KEY''))"
    using assms(1) by (simp add: no_key_def py_or_falsy)
  have b: "\<not> truthy (py_or (options_env opts ''GOOGLE_API_KEY'') (os_environ ''GOOGLE_API_KEY''))"
    using assms(2) by (simp add: no_key_def py_or_falsy)
  show ?thesis
    using a b by (auto simp: gemini_init_def Let_def truthy_def split: option.splits)
qed

lemma gemini_init_not_installed: "isl (gemini_init False os_environ opts)"
  by (simp add: gemini_init_def)

lemma openai_init_no_key:
  assumes "no_key os_environ opts ''ZAI_API_KEY''" and "no_key os_environ opts ''OPENAI_API_KEY''"
  shows "\<exists>eng. openai_init True os_environ opts = Inr eng \<and> o_api_key eng = ''dummy-key''"
proof -
  have "\<not> truthy (py_or (options_env opts ''ZAI_API_KEY'')
                         (py_or (options_env opts ''OPENAI_API_KEY'')
                            (py_or (os_environ ''ZAI_API_KEY'') (os_environ ''OPENAI_API_KEY''))))"
    using assms by (simp add: no_key_def py_or_falsy)
  then show ?thesis
    by (auto simp: openai_init_def Let_def truthy_def split: option.splits)
qed

text \<open>
  Claim C3, as the code has it.  With no provider key available, constructing the chat-API
  adapter fails at once: with the \<open>ValueError\<close> that names the two keys when the provider
  library is installed, with the import error otherwise.  The delta-API adapter fails
  at construction only when the \<open>openai\<close> package is missing; with the package it is
  constructed, and the missing key is replaced by the placeholder \<open>dummy-key\<close>.
\<close>

theorem missing_key_at_construction:
  assumes "\<forall>k \<in> {''GEMINI_API_KEY'', ''GOOGLE_API_KEY'', ''ZAI_API_KEY'', ''OPENAI_API_KEY''}.
             no_key os_environ opts k"
  shows "isl (gemini_init genai_installed os_environ opts) \<and>
         gemini_init True os_environ opts =
           Inl (ValueError ''GEMINI_API_KEY or GOOGLE_API_KEY must be provided'') \<and>
         (\<exists>eng. openai_init True os_environ opts = Inr eng \<and> o_api_key eng = ''dummy-key'') \<and>
         isl (openai_init False os_environ opts)"
proof -
  have g: "gemini_init True os_environ opts =
           Inl (ValueError ''GEMINI_API_KEY or GOOGLE_API_KEY must be provided'')"
    using assms by (intro gemini_init_no_key) simp_all
  have "isl (gemini_init genai_installed os_environ opts)"
    using g gemini_init_not_installed [of os_environ opts] by (cases genai_installed) simp_all
  moreover have "\<exists>eng. openai_init True os_environ opts = Inr eng \<and> o_api_key eng = ''dummy-key''"
    using assms by (intro openai_init_no_key) simp_all
  moreover have "isl (openai_init False os_environ opts)" by (simp add: openai_init_def)
  ultimately show ?thesis using g by blast
qed

theorem missing_key_at_construction_witness:
  "gemini_init True (\<lambda>_. None) bare_options =
     Inl (ValueError ''GEMINI_API_KEY or GOOGLE_API_KEY must be provided'') \<and>
   (\<exists>eng. openai_init True (\<lambda>_. None) bare_options = Inr eng \<and> o_api_key eng = ''dummy-key'')"
  using missing_key_at_construction [of "(\<lambda>_. None)" bare_options True]
  by (simp add: no_key_def options_env_def bare_options_def truthy_def)

text \<open>
  Claim C3 as stated fails for the delta-API adapter: with no key anywhere the
  construction returns an engine whose key is \<open>dummy-key\<close>.
\<close>

theorem missing_key_counterexample:
  "env bare_options = None \<and>
   openai_init True (\<lambda>_. None) bare_options =
     Inr \<lparr>o_options = bare_options, o_api_key = ''dummy-key'',
          o_base_url = ''https://api.openai.com/v1'',
          o_system_prompt = ''You are a coding agent.'',
          o_history = [SystemMsg ''You are a coding agent.'']\<rparr>"
  by (simp add: openai_init_def options_env_def bare_options_def py_or_def truthy_def Let_def
      set_system_prompt_msg_def lower_def lower_char_def)


section \<open>Reconstruction of streamed tool calls\<close>

lemma append_if_text: "append_if s x = s @ field_text x"
  by (simp add: append_if_def field_text_def split: option.splits)

lemma foldl_add_to_call:
  "foldl add_to_call tc ds =
     \<lparr>tc_id = tc_id tc @ concat (map (\<lambda>c. field_text (tcc_id c)) ds),
      tc_name = tc_name tc @ concat (map (\<lambda>c. field_text (tcc_name c)) ds),
      tc_arguments = tc_arguments tc @ concat (map (\<lambda>c. field_text (tcc_arguments c)) ds)\<rparr>"
  by (induction ds arbitrary: tc) (simp_all add: add_to_call_def append_if_text)

lemma add_tc_chunk_ok:
  assumes "tcc_index c \<le> length tcs"
  shows "\<exists>tcs1. add_tc_chunk tcs c = Inr tcs1 \<and> length tcs1 = max (length tcs) (Suc (tcc_index c)) \<and>
           (\<forall>i. slot tcs1 i = (if i = tcc_index c then add_to_call (slot tcs i) c else slot tcs i))"
proof (cases "tcc_index c = length tcs")
  case True
  then show ?thesis
    by (auto simp: add_tc_chunk_def Let_def slot_def nth_append)
next
  case False
  with assms have "tcc_index c < length tcs" by simp
  then show ?thesis
    by (auto simp: add_tc_chunk_def Let_def slot_def)
qed

lemma add_tc_chunks_ok:
  assumes "gap_free (length tcs) cs"
  shows "\<exists>tcs'. add_tc_chunks tcs cs = Inr tcs' \<and>
           (\<forall>i. slot tcs' i = foldl add_to_call (slot tcs i) (addressed_to i cs)) \<and>
           (\<forall>i. i < length tcs' \<longleftrightarrow> i < length tcs \<or> (\<exists>c \<in> set cs. tcc_index c = i))"
  using assms
proof (induction cs arbitrary: tcs)
  case Nil
  then show ?case by (simp add: addressed_to_def)
next
  case (Cons c cs)
  from Cons.prems have k: "tcc_index c \<le> length tcs"
    and g: "gap_free (max (length tcs) (Suc (tcc_index c))) cs" by simp_all
  from add_tc_chunk_ok [OF k] obtain tcs1 where
    a: "add_tc_chunk tcs c = Inr tcs1" and
    l: "length tcs1 = max (length tcs) (Suc (tcc_index c))" and
    s: "\<forall>i. slot tcs1 i = (if i = tcc_index c then add_to_call (slot tcs i) c else slot tcs i)"
    by blast
  from g l have "gap_free (length tcs1) cs" by simp
  from Cons.IH [OF this] obtain tcs' where
    r: "add_tc_chunks tcs1 cs = Inr tcs'" and
    f: "\<forall>i. slot tcs' i = foldl add_to_call (slot tcs1 i) (addressed_to i cs)" and
    n: "\<forall>i. i < length tcs' \<longleftrightarrow> i < length tcs1 \<or> (\<exists>c \<in> set cs. tcc_index c = i)"
    by blast
  have "add_tc_chunks tcs (c # cs) = Inr tcs'" using a r by simp
  moreover have "\<forall>i. slot tcs' i = foldl add_to_call (slot tcs i) (addressed_to i (c # cs))"
    using f s by (simp add: addressed_to_def)
  moreover have "\<forall>i. i < length tcs' \<longleftrightarrow> i < length tcs \<or> (\<exists>c \<in> set (c # cs). tcc_index c = i)"
    using n l k by auto
  ultimately show ?case by blast
qed

text \<open>
  Claim C6, as the code has it.  For a stream of tool-call deltas whose indices arrive
  without gaps, the reconstruction returns a list with one slot for every index that was
  addressed and no other, and the identifier, name and argument string of slot \<open>i\<close> are
  the fragments of the deltas addressed to \<open>i\<close>, appended in their order.
\<close>

theorem delta_reconstruction:
  assumes "gap_free 0 cs"
  shows "\<exists>tool_calls. add_tc_chunks [] cs = Inr tool_calls \<and>
           (\<forall>i. i < length tool_calls \<longleftrightarrow> (\<exists>c \<in> set cs. tcc_index c = i)) \<and>
           (\<forall>i < length tool_calls.
              tc_id (tool_calls ! i) = concat (map (\<lambda>c. field_text (tcc_id c)) (addressed_to i cs)) \<and>
              tc_name (tool_calls ! i) = concat (map (\<lambda>c. field_text (tcc_name c)) (addressed_to i cs)) \<and>
              tc_arguments (tool_calls ! i) =
                concat (map (\<lambda>c. field_text (tcc_arguments c)) (addressed_to i cs)))"
proof -
  from assms have "gap_free (length ([] :: tool_call list)) cs" by simp
  from add_tc_chunks_ok [OF this] obtain tcs' where
    r: "add_tc_chunks [] cs = Inr tcs'" and
    f: "\<forall>i. slot tcs' i = foldl add_to_call (slot [] i) (addressed_to i cs)" and
    n: "\<forall>i. i < length tcs' \<longleftrightarrow> i < length ([] :: tool_call list) \<or> (\<exists>c \<in> set cs. tcc_index c = i)"
    by blast
  have "\<forall>i < length tcs'. tcs' ! i = foldl add_to_call empty_call (addressed_to i cs)"
  proof (intro allI impI)
    fix i assume "i < length tcs'"
    then have "slot tcs' i = tcs' ! i" by (simp add: slot_def)
    moreover have "slot tcs' i = foldl add_to_call (slot [] i) (addressed_to i cs)"
      using f by blast
    ultimately show "tcs' ! i = foldl add_to_call empty_call (addressed_to i cs)"
      by (simp add: slot_def)
  qed
  then have "\<forall>i < length tcs'.
              tc_id (tcs' ! i) = concat (map (\<lambda>c. field_text (tcc_id c)) (addressed_to i cs)) \<and>
              tc_name (tcs' ! i) = concat (map (\<lambda>c. field_text (tcc_name c)) (addressed_to i cs)) \<and>
              tc_arguments (tcs' ! i) =
                concat (map (\<lambda>c. field_text (tcc_arguments c)) (addressed_to i cs))"
    by (simp add: foldl_add_to_call empty_call_def)
  with r n show ?thesis by auto
qed

theorem delta_reconstruction_witness:
  \<open>gap_free 0 (delta_tool_calls bash_delta_1 @ delta_tool_calls bash_delta_2) \<and>
   add_tc_chunks [] (delta_tool_calls bash_delta_1 @ delta_tool_calls bash_delta_2)
     = Inr [\<lparr>tc_id = [], tc_name = ''Bash'', tc_arguments = ''{"command":"ls"}''\<rparr>] \<and>
   consume_stream [bash_delta_1, bash_delta_2] ([], [], [])
     = (None, [\<lparr>tc_id = [], tc_name = ''Bash'', tc_arguments = ''{"command":"ls"}''\<rparr>], [], [])\<close>
proof -
  let ?cs = "delta_tool_calls bash_delta_1 @ delta_tool_calls bash_delta_2"
  have g: "gap_free 0 ?cs" by (simp add: bash_delta_1_def bash_delta_2_def)
  from delta_reconstruction [OF g] obtain tcs where
    r: "add_tc_chunks [] ?cs = Inr tcs" and
    n: "\<forall>i. i < length tcs \<longleftrightarrow> (\<exists>c \<in> set ?cs. tcc_index c = i)" and
    f: "\<forall>i < length tcs.
              tc_id (tcs ! i) = concat (map (\<lambda>c. field_text (tcc_id c)) (addressed_to i ?cs)) \<and>
              tc_name (tcs ! i) = concat (map (\<lambda>c. field_text (tcc_name c)) (addressed_to i ?cs)) \<and>
              tc_arguments (tcs ! i) =
                concat (map (\<lambda>c. field_text (tcc_arguments c)) (addressed_to i ?cs))"
    by blast
  from n have "\<forall>i. i < length tcs \<longleftrightarrow> i = 0"
    by (auto simp: bash_delta_1_def bash_delta_2_def)
  then have "0 < length tcs" and "\<not> 1 < length tcs" by simp_all
  then have l: "length tcs = 1" by (cases tcs) auto
  then obtain tc where t: "tcs = [tc]" by (cases tcs) auto
  from f l have \<open>tc_id (tcs ! 0) = [] \<and> tc_name (tcs ! 0) = ''Bash'' \<and>
      tc_arguments (tcs ! 0) = ''{"command":"ls"}''\<close>
    by (simp add: bash_delta_1_def bash_delta_2_def addressed_to_def field_text_def)
  with t have \<open>tc = \<lparr>tc_id = [], tc_name = ''Bash'', tc_arguments = ''{"command":"ls"}''\<rparr>\<close>
    by simp
  with t r have a: \<open>add_tc_chunks [] ?cs
     = Inr [\<lparr>tc_id = [], tc_name = ''Bash'', tc_arguments = ''{"command":"ls"}''\<rparr>]\<close> by simp
  have \<open>consume_stream [bash_delta_1, bash_delta_2] ([], [], [])
     = (None, [\<lparr>tc_id = [], tc_name = ''Bash'', tc_arguments = ''{"command":"ls"}''\<rparr>], [], [])\<close>
    by (simp add: bash_delta_1_def bash_delta_2_def add_tc_chunk_def add_to_call_def
        append_if_def empty_call_def)
  with g a show ?thesis by blast
qed

text \<open>
  Claim C6 as stated fails for a stream whose first delta is addressed to index 1: one
  slot is appended, and reading slot 1 raises \<open>IndexError\<close>.
\<close>

theorem delta_reconstruction_counterexample:
  "add_tc_chunks [] [\<lparr>tcc_index = 1, tcc_id = Some ''call_1'', tcc_name = Some ''Bash'',
                       tcc_arguments = None\<rparr>]
     = Inl (IndexError ''list index out of range'')"
  by (simp add: add_tc_chunk_def)


section \<open>The system entry of the history\<close>

lemma role_set_content: "role (set_content m c) = role m"
  by (cases m) simp_all

lemma system_first_Nil: "system_first []"
  by (simp add: system_first_def)

lemma system_first_Cons_system:
  "role m = ''system'' \<Longrightarrow>
     system_first (m # rest) \<longleftrightarrow> filter (\<lambda>m. role m = ''system'') rest = []"
  by (simp add: system_first_def)

lemma system_first_Cons_other:
  "role m \<noteq> ''system'' \<Longrightarrow>
     system_first (m # rest) \<longleftrightarrow> filter (\<lambda>m. role m = ''system'') rest = []"
  unfolding system_first_def by (cases "filter (\<lambda>m. role m = ''system'') rest") simp_all

lemma system_first_set:
  assumes "system_first h"
  shows "system_first (set_system_prompt_msg sp h)"
proof (cases h)
  case Nil
  have "role (SystemMsg sp) = ''system''" by simp
  then have "system_first [SystemMsg sp]" by (simp only: system_first_Cons_system filter.simps)
  with Nil show ?thesis by (simp add: set_system_prompt_msg_def)
next
  case (Cons m rest)
  show ?thesis
  proof (cases "role m = ''system''")
    case True
    with assms Cons have e: "filter (\<lambda>m. role m = ''system'') rest = []"
      by (simp only: system_first_Cons_system)
    have "role (set_content m sp) = ''system''" using True by (simp only: role_set_content)
    then have "system_first (set_content m sp # rest)"
      using e by (simp only: system_first_Cons_system)
    with True Cons show ?thesis by (simp add: set_system_prompt_msg_def)
  next
    case False
    from system_first_Cons_other [OF False, of rest] assms Cons
    have e: "filter (\<lambda>m. role m = ''system'') rest = []" by simp
    with False have "filter (\<lambda>m. role m = ''system'') (m # rest) = []" by simp
    moreover have "role (SystemMsg sp) = ''system''" by simp
    ultimately have "system_first (SystemMsg sp # m # rest)"
      by (simp only: system_first_Cons_system)
    with False Cons show ?thesis by (simp add: set_system_prompt_msg_def)
  qed
qed

lemma system_first_append:
  assumes "system_first h" and "role m \<noteq> ''system''"
  shows "system_first (h @ [m])"
proof (cases h)
  case Nil
  have "system_first (m # [])" using assms(2) system_first_Cons_other [of m "[]"] by simp
  with Nil show ?thesis by simp
next
  case (Cons a rest)
  have f: "filter (\<lambda>m. role m = ''system'') (rest @ [m]) = filter (\<lambda>m. role m = ''system'') rest"
    using assms(2) by simp
  show ?thesis
  proof (cases "role a = ''system''")
    case True
    with assms(1) Cons have "filter (\<lambda>m. role m = ''system'') rest = []"
      by (simp only: system_first_Cons_system)
    with f True have "system_first (a # (rest @ [m]))" by (simp only: system_first_Cons_system)
    with Cons show ?thesis by simp
  next
    case False
    from system_first_Cons_other [OF False, of rest] assms(1) Cons
    have "filter (\<lambda>m. role m = ''system'') rest = []" by simp
    with f system_first_Cons_other [OF False, of "rest @ [m]"]
    have "system_first (a # (rest @ [m]))" by simp
    with Cons show ?thesis by simp
  qed
qed

lemma system_first_handle:
  assumes "system_first h"
      and "openai_handle_tool_calls sy opts tcs (h, fs, tr) = (r, (h', fs', tr'))"
  shows "system_first h'"
  using assms
proof (induction tcs arbitrary: h fs tr)
  case Nil
  then show ?case by simp
next
  case (Cons tc rest)
  define args where
    "args = (case sys_json_loads sy (tc_arguments tc) of Some a \<Rightarrow> a | None \<Rightarrow> no_args)"
  show ?case
  proof (cases "dispatch sy opts openai_unknown fs (tc_name tc) args")
    case (Inl e)
    with Cons.prems show ?thesis by (simp add: args_def)
  next
    case (Inr p)
    obtain result fs1 where p: "p = (result, fs1)" by (cases p)
    have "system_first (h @ [ToolMsg (tc_id tc) (tc_name tc) (py_str result)])"
      using Cons.prems(1) by (intro system_first_append) simp_all
    moreover have "openai_handle_tool_calls sy opts rest
               (h @ [ToolMsg (tc_id tc) (tc_name tc) (py_str result)], fs1,
                tr @ [Emit (UserMessage (tc_id tc) (RStr (py_str result)))]) = (r, (h', fs', tr'))"
      using Cons.prems(2) Inr p by (simp add: args_def)
    ultimately show ?thesis using Cons.IH by blast
  qed
qed

lemma system_first_loop:
  assumes "system_first h"
      and "openai_loop n sy backend opts (h, fs, tr) = (st, (h', fs', tr'))"
  shows "system_first h'"
  using assms
proof (induction n arbitrary: h fs tr)
  case 0
  then show ?case by simp
next
  case (Suc n)
  obtain r tcs content tr1 where c:
    "consume_stream (backend h) ([], [], tr @ [Request h]) = (r, (tcs, content, tr1))"
    by (metis prod_cases4)
  show ?case
  proof (cases r)
    case (Some e)
    with Suc.prems c show ?thesis by simp
  next
    case None
    define h1 where "h1 = (if content \<noteq> [] then h @ [AssistantMsg content] else h)"
    have s1: "system_first h1"
      using Suc.prems(1) by (simp add: h1_def system_first_append)
    show ?thesis
    proof (cases "tcs = []")
      case True
      with Suc.prems(2) c None have "h' = h1" by (simp add: h1_def Let_def)
      with s1 show ?thesis by simp
    next
      case False
      define h2 where
        "h2 = h1 @ [AssistantToolCalls (if content \<noteq> [] then Some content else None) tcs]"
      have s2: "system_first h2" using s1 by (simp add: h2_def system_first_append)
      obtain r2 h3 fs3 tr3 where
        hd: "openai_handle_tool_calls sy opts tcs (h2, fs, tr1) = (r2, (h3, fs3, tr3))"
        by (metis prod_cases4)
      from system_first_handle [OF s2 hd] have s3: "system_first h3" .
      show ?thesis
      proof (cases r2)
        case (Some e)
        with Suc.prems(2) c None False hd have "h' = h3"
          by (simp add: h1_def h2_def Let_def)
        with s3 show ?thesis by simp
      next
        case n2: None
        with Suc.prems(2) c None False hd
        have "openai_loop n sy backend opts (h3, fs3, tr3) = (st, (h', fs', tr'))"
          by (simp add: h1_def h2_def Let_def)
        with Suc.IH s3 show ?thesis by blast
      qed
    qed
  qed
qed

lemma system_first_step:
  assumes "system_first (o_history (fst c))"
  shows "system_first (o_history (fst (openai_step sy backend c op)))"
proof -
  obtain eng fs where c: "c = (eng, fs)" by (cases c)
  show ?thesis
  proof (cases op)
    case (SetSystemPrompt prompt)
    with assms c show ?thesis
      by (simp add: openai_set_system_prompt_def system_first_set)
  next
    case (Query msg)
    with assms c show ?thesis
      by (simp add: openai_query_def system_first_append)
  next
    case (ReceiveResponse n)
    obtain st h' fs' tr' where l:
      "openai_loop n sy (backend (get_openai_tools (allowed_tools (o_options eng))))
         (o_options eng) (o_history eng, fs, []) = (st, (h', fs', tr'))"
      by (metis prod_cases4)
    from assms c have "system_first (o_history eng)" by simp
    from system_first_loop [OF this l] have "system_first h'" .
    with ReceiveResponse c l show ?thesis
      by (simp add: openai_receive_response_def Let_def)
  qed
qed

lemma openai_init_history:
  "openai_init b os_environ opts = Inr eng \<Longrightarrow> o_history eng = [SystemMsg (system_prompt opts)]"
  by (cases b) (auto simp: openai_init_def Let_def set_system_prompt_msg_def)

lemma system_first_init:
  assumes "openai_init b os_environ opts = Inr eng"
  shows "system_first (o_history eng)"
proof -
  have "role (SystemMsg (system_prompt opts)) = ''system''" by simp
  then have "system_first [SystemMsg (system_prompt opts)]"
    using system_first_Cons_system [of "SystemMsg (system_prompt opts)" "[]"] by simp
  with openai_init_history [OF assms] show ?thesis by simp
qed

lemma system_first_run:
  "system_first (o_history (fst c)) \<Longrightarrow>
     system_first (o_history (fst (foldl (openai_step sy backend) c ops)))"
  by (induction ops arbitrary: c) (simp_all add: system_first_step)

text \<open>
  Claim C8.  After the construction of the delta-API engine and any sequence of
  \<open>set_system_prompt\<close>, \<open>query\<close> and \<open>receive_response\<close> (followed through any number of
  rounds, also when an exception leaves it), the history has at most one entry with the role
  \<open>system\<close>, and when it has one that entry is the first.
\<close>

theorem history_system_first:
  assumes "openai_init openai_installed os_environ opts = Inr eng"
  shows "system_first (o_history (fst (foldl (openai_step sy backend) (eng, fs) ops)))"
  using system_first_init [OF assms] by (intro system_first_run) simp

lemma consume_read: "consume_stream [read_call_delta] ([], [], tr) = (None, ([read_call], [], tr))"
  by (simp add: read_call_delta_def read_call_def add_tc_chunk_def add_to_call_def
      append_if_def empty_call_def)

lemma consume_done:
  "consume_stream [done_delta] ([], [], tr) =
     (None, ([], ''done'', tr @ [Emit (AssistantMessage (OpenAIChunk done_delta))]))"
  by (simp add: done_delta_def)

lemma handle_read:
  "cwd opts = None \<Longrightarrow>
   openai_handle_tool_calls stub_sys opts [read_call] (h, one_file, tr) =
     (None, (h @ [ToolMsg ''call_1'' ''Read'' ''hello''], one_file,
             tr @ [Emit (UserMessage ''call_1'' (RStr ''hello''))]))"
  by (simp add: read_call_def stub_sys_def dispatch_def working_dir_def resolve_file_path_def
      is_absolute_def path_join_def no_args_def call_read_file_def unexpected_keys_def
      present_keys_def key_if_def read_file_def exists_def node_at_def one_file_def
      read_text_def Let_def)

lemma bare_init: "openai_init True (\<lambda>_. None) bare_options = Inr bare_engine"
  by (simp add: openai_init_def options_env_def bare_options_def py_or_def truthy_def Let_def
      set_system_prompt_msg_def lower_def lower_char_def bare_engine_def)

theorem history_system_first_witness:
  "openai_init True (\<lambda>_. None) bare_options = Inr bare_engine \<and>
   system_first (o_history (fst (foldl (openai_step stub_sys (tool_rounds 1)) (bare_engine, one_file)
      [Query ''hi'', ReceiveResponse 3, SetSystemPrompt ''Be brief.'']))) \<and>
   o_history (fst (foldl (openai_step stub_sys (tool_rounds 1)) (bare_engine, one_file)
      [Query ''hi'', ReceiveResponse 3, SetSystemPrompt ''Be brief.'']))
     = [SystemMsg ''Be brief.'', UserMsg ''hi'', AssistantToolCalls None [read_call],
        ToolMsg ''call_1'' ''Read'' ''hello'', AssistantMsg ''done'']"
proof -
  have c: "cwd bare_options = None" by (simp add: bare_options_def)
  have "o_history (fst (foldl (openai_step stub_sys (tool_rounds 1)) (bare_engine, one_file)
      [Query ''hi'', ReceiveResponse 3, SetSystemPrompt ''Be brief.'']))
     = [SystemMsg ''Be brief.'', UserMsg ''hi'', AssistantToolCalls None [read_call],
        ToolMsg ''call_1'' ''Read'' ''hello'', AssistantMsg ''done'']"
    by (simp add: openai_query_def openai_receive_response_def eval_nat_numeral tool_rounds_def
        consume_read consume_done handle_read c openai_set_system_prompt_def
        set_system_prompt_msg_def bare_engine_def bare_options_def
        del: consume_stream.simps openai_handle_tool_calls.simps)
  with history_system_first [OF bare_init, of stub_sys "tool_rounds 1" one_file
      "[Query ''hi'', ReceiveResponse 3, SetSystemPrompt ''Be brief.'']"] bare_init
  show ?thesis by blast
qed


section \<open>The tool loops: rounds, requests and envelopes\<close>













































section \<open>The command line of the subprocess engine\<close>

text \<open>The definitions that evaluate a command line, and four command lines: the scenario
  of the persisted marker \<open>sess-42\<close> with the default template; the marker file as it is
  loaded; a template with the session flag and an unquoted, then a quoted placeholder,
  without a session; and a template without any session flag that only contains the
  characters \<open>-s\<close>.\<close>

lemmas cli_eval = custom_cli_args_def session_template_def py_format_def shlex_split_def
  format_fields_def or_default_def truthy_def default_template_def emit_char_def emit_text_def
  emit_word_def is_shell_space_def is_shell_quote_def is_digit_def Let_def

lemma marker_loaded: "load_session_id marker_fs spec_options = Some ''sess-42''"
  by (simp add: load_session_id_def spec_options_def bare_options_def marker_fs_def path_join_def
      exists_def node_at_def read_text_def py_strip_def is_space_def Let_def)

lemma scenario_args:
  "custom_cli_args (\<lambda>_. None) spec_options (Some ''sess-42'') =
     Inr [''droid'', ''exec'', ''--model'', ''gpt-4o'', ''--output-format'', ''stream-json'',
          ''--input-format'', ''stream-json'', ''--auto'', ''low'', ''-s'', ''sess-42'']"
  by (simp add: cli_eval spec_options_def bare_options_def)

lemma unquoted_args:
  "custom_cli_args
       ((\<lambda>_. None)(''AUTO_CLAUDE_CUSTOM_CLI_TEMPLATE'' \<mapsto>
           ''droid exec --session-id {sessionId} --auto low''))
       bare_options None
     = Inr [''droid'', ''exec'', ''--session-id'', ''--auto'', ''low'']"
  by (simp add: cli_eval bare_options_def)

lemma quoted_args:
  \<open>custom_cli_args
       ((\<lambda>_. None)(''AUTO_CLAUDE_CUSTOM_CLI_TEMPLATE'' \<mapsto>
           ''droid exec --session-id "{sessionId}" --auto low''))
       bare_options None
     = Inr [''droid'', ''exec'', ''--auto'', ''low'']\<close>
  by (simp add: cli_eval bare_options_def)

lemma substring_args:
  "custom_cli_args
       ((\<lambda>_. None)(''AUTO_CLAUDE_CUSTOM_CLI_TEMPLATE'' \<mapsto> ''run --no-stream {model}''))
       spec_options (Some ''sess-42'')
     = Inr [''run'', ''--no-stream'', ''gpt-4o'']"
  by (simp add: cli_eval spec_options_def bare_options_def)

text \<open>
  Claim C9 at a failing input.  The template names the session flag with an unquoted
  placeholder, and no session marker is persisted: the placeholder resolves to the empty
  string, the split leaves no empty argument behind the flag, and the clean-up keeps
  \<open>--session-id\<close>, which now stands in front of \<open>--auto\<close>.  The claim (and the comment of
  the clean-up loop) has the flag removed.
\<close>

theorem empty_session_flag_kept:
  "load_session_id (\<lambda>_. None) bare_options = None \<and>
   custom_cli_args
       ((\<lambda>_. None)(''AUTO_CLAUDE_CUSTOM_CLI_TEMPLATE'' \<mapsto>
           ''droid exec --session-id {sessionId} --auto low''))
       bare_options (load_session_id (\<lambda>_. None) bare_options)
     = Inr [''droid'', ''exec'', ''--session-id'', ''--auto'', ''low'']"
  by (simp add: cli_eval bare_options_def load_session_id_def)

end
